theory Spec2Isabelle
  imports Complex_Main "HOL-Library.Char_ord" "HOL-Library.List_Lexorder"
    "HOL-Library.Product_Lexorder"
begin

section \<open>Python values, errors and strings\<close>

text \<open>
  The sales analytics system is a Python program. A transaction is a dictionary
  with string keys; a value of type \<open>'a option\<close> in the record below says
  whether the key is present. Python integers are \<open>int\<close>. Characters are code
  points below 256.

  An exception that leaves a function is a value \<open>Inl e\<close> of the result.
\<close>

datatype py_error = KeyError string | TypeError | ZeroDivisionError | OverflowError

text \<open>\<open>d[k]\<close>: raises KeyError when the key is absent.\<close>

definition getitem :: "string \<Rightarrow> 'a option \<Rightarrow> py_error + 'a" where
  "getitem k v = (case v of None \<Rightarrow> Inl (KeyError k) | Some x \<Rightarrow> Inr x)"

text \<open>\<open>s.startswith(p)\<close>.\<close>

definition startswith :: "string \<Rightarrow> string \<Rightarrow> bool" where
  "startswith s p = (take (length p) s = p)"

text \<open>\<open>s.replace(c, "")\<close> for a one-character \<open>c\<close>: every occurrence is removed.\<close>

definition remove_char :: "char \<Rightarrow> string \<Rightarrow> string" where
  "remove_char c s = filter (\<lambda>x. x \<noteq> c) s"

text \<open>\<open>s.split(sep)\<close> for a one-character separator: always at least one field.\<close>

fun split :: "char \<Rightarrow> string \<Rightarrow> string list" where
  "split sep [] = [[]]"
| "split sep (c # cs) =
     (if c = sep then [] # split sep cs
      else (case split sep cs of [] \<Rightarrow> [[c]] | f # fs \<Rightarrow> (c # f) # fs))"

text \<open>
  \<open>s.strip()\<close> removes the characters for which \<open>str.isspace\<close> holds; below 256
  these are the code points 9 to 13, 28 to 32, 133 and 160.
\<close>

definition isspace :: "char \<Rightarrow> bool" where
  "isspace c = ((of_char c :: nat) \<in> {9, 10, 11, 12, 13, 28, 29, 30, 31, 32, 133, 160})"

definition strip :: "string \<Rightarrow> string" where
  "strip s = rev (dropWhile isspace (rev (dropWhile isspace s)))"

text \<open>
  \<open>int(s)\<close> on a string, base 10: surrounding white space is ignored (for
  \<open>int\<close> the code points 28 to 31 are not white space), then an optional sign,
  then decimal digits, in which single underscores may separate digits. Any other
  string raises ValueError, which is \<open>None\<close> here: every caller in this
  program catches it. The interpreter's limit on the length of the digit string is
  not modelled.
\<close>

definition int_space :: "char \<Rightarrow> bool" where
  "int_space c = ((of_char c :: nat) \<in> {9, 10, 11, 12, 13, 32, 133, 160})"

definition is_digit :: "char \<Rightarrow> bool" where
  "is_digit c = (48 \<le> (of_char c :: nat) \<and> (of_char c :: nat) \<le> 57)"

fun digits_ok :: "string \<Rightarrow> bool" where
  "digits_ok [] = False"
| "digits_ok [c] = is_digit c"
| "digits_ok (c # d # cs) =
     (is_digit c \<and> (if d = CHR ''_'' then digits_ok cs else digits_ok (d # cs)))"

definition digits_val :: "string \<Rightarrow> nat" where
  "digits_val s = foldl (\<lambda>n c. 10 * n + (of_char c - 48)) 0 (filter is_digit s)"

definition py_int :: "string \<Rightarrow> int option" where
  "py_int s =
     (let t = rev (dropWhile int_space (rev (dropWhile int_space s)));
          neg = (case t of [] \<Rightarrow> False | c # cs \<Rightarrow> c = CHR ''-'');
          body = (case t of [] \<Rightarrow> []
                  | c # cs \<Rightarrow> if c = CHR ''-'' \<or> c = CHR ''+'' then cs else t)
      in if digits_ok body
         then Some (if neg then - int (digits_val body) else int (digits_val body))
         else None)"

section \<open>Floats\<close>

text \<open>
  A Python float is a finite binary fraction, an infinity or NaN. The sign of a zero
  is not represented: it shows in no comparison, sum or division of this program.

  The result of an arithmetic operation on finite floats is the exact result
  rounded to a float. The rounding is a parameter \<open>rnd\<close> of every function that
  computes with floats: it maps the exact result to the float that the machine
  gives, an infinity when the result is too large. What the proofs need of it is
  \<open>rounding_ok\<close> below, which rounding to the nearest float satisfies.
\<close>

datatype pyfloat = Fin rat | PInf | NInf | NaN

type_synonym rounding = "rat \<Rightarrow> pyfloat"

text \<open>\<open>a < b\<close> and \<open>a <= b\<close> on floats: false when an operand is NaN.\<close>

fun flt :: "pyfloat \<Rightarrow> pyfloat \<Rightarrow> bool" where
  "flt NaN b = False"
| "flt a NaN = False"
| "flt (Fin x) (Fin y) = (x < y)"
| "flt (Fin x) PInf = True"
| "flt (Fin x) NInf = False"
| "flt PInf b = False"
| "flt NInf NInf = False"
| "flt NInf b = True"

fun fle :: "pyfloat \<Rightarrow> pyfloat \<Rightarrow> bool" where
  "fle NaN b = False"
| "fle a NaN = False"
| "fle (Fin x) (Fin y) = (x \<le> y)"
| "fle (Fin x) PInf = True"
| "fle (Fin x) NInf = False"
| "fle PInf PInf = True"
| "fle PInf b = False"
| "fle NInf b = True"

text \<open>
  \<open>float(n)\<close> for an integer, as in \<open>n * x\<close> and \<open>x / n\<close> with a float
  \<open>x\<close>: the integer rounded to a float, OverflowError when it is too large.
\<close>

definition float_of_int :: "rounding \<Rightarrow> int \<Rightarrow> py_error + pyfloat" where
  "float_of_int rnd n = (case rnd (of_int n) of Fin r \<Rightarrow> Inr (Fin r) | _ \<Rightarrow> Inl OverflowError)"

text \<open>\<open>a + b\<close> on floats.\<close>

fun fadd :: "rounding \<Rightarrow> pyfloat \<Rightarrow> pyfloat \<Rightarrow> pyfloat" where
  "fadd rnd NaN b = NaN"
| "fadd rnd a NaN = NaN"
| "fadd rnd (Fin x) (Fin y) = rnd (x + y)"
| "fadd rnd PInf NInf = NaN"
| "fadd rnd NInf PInf = NaN"
| "fadd rnd PInf b = PInf"
| "fadd rnd NInf b = NInf"
| "fadd rnd (Fin x) b = b"

text \<open>\<open>a * b\<close> on floats.\<close>

definition times_inf :: "bool \<Rightarrow> pyfloat \<Rightarrow> pyfloat" where
  "times_inf positive b =
     (if flt (Fin 0) b then (if positive then PInf else NInf)
      else if flt b (Fin 0) then (if positive then NInf else PInf)
      else NaN)"

fun fmul :: "rounding \<Rightarrow> pyfloat \<Rightarrow> pyfloat \<Rightarrow> pyfloat" where
  "fmul rnd NaN b = NaN"
| "fmul rnd a NaN = NaN"
| "fmul rnd (Fin x) (Fin y) = rnd (x * y)"
| "fmul rnd PInf b = times_inf True b"
| "fmul rnd NInf b = times_inf False b"
| "fmul rnd a PInf = times_inf True a"
| "fmul rnd a NInf = times_inf False a"

text \<open>\<open>a / b\<close> on floats: ZeroDivisionError when \<open>b\<close> is zero, whatever \<open>a\<close> is.\<close>

fun fdiv :: "rounding \<Rightarrow> pyfloat \<Rightarrow> pyfloat \<Rightarrow> py_error + pyfloat" where
  "fdiv rnd a (Fin y) =
     (if y = 0 then Inl ZeroDivisionError
      else
        (case a of
           Fin x \<Rightarrow> Inr (rnd (x / y))
         | NaN \<Rightarrow> Inr NaN
         | PInf \<Rightarrow> Inr (if 0 < y then PInf else NInf)
         | NInf \<Rightarrow> Inr (if 0 < y then NInf else PInf)))"
| "fdiv rnd a NaN = Inr NaN"
| "fdiv rnd (Fin x) b = Inr (Fin 0)"
| "fdiv rnd a b = Inr NaN"

text \<open>
  \<open>round(x, 2)\<close>: the exact value of a finite \<open>x\<close> goes to the nearest
  multiple of 1/100, a tie to the even one, and that decimal is rounded to a float;
  an infinity or NaN is returned as it is.
\<close>

definition round_half_even :: "rat \<Rightarrow> int" where
  "round_half_even x =
     (let f = \<lfloor>x\<rfloor>; d = x - of_int f
      in if d < 1 / 2 then f else if d > 1 / 2 then f + 1
         else if even f then f else f + 1)"

definition round2 :: "rounding \<Rightarrow> pyfloat \<Rightarrow> pyfloat" where
  "round2 rnd a =
     (case a of Fin x \<Rightarrow> rnd (of_int (round_half_even (x * 100)) / 100) | _ \<Rightarrow> a)"

text \<open>
  The order in which \<open>sorted\<close> sees float keys. Without NaN among the keys it is
  the order of \<open>flt\<close>; the place that \<open>sorted\<close> gives to a NaN key depends on
  the other keys and is not modelled.
\<close>

fun frank :: "pyfloat \<Rightarrow> nat \<times> rat" where
  "frank NInf = (0, 0)"
| "frank (Fin x) = (1, x)"
| "frank PInf = (2, 0)"
| "frank NaN = (3, 0)"

text \<open>
  What is assumed of the rounding: zero and one are floats, no rounding gives NaN,
  rounding is monotone, and a rounded value is a float.
\<close>

definition rounding_ok :: "rounding \<Rightarrow> bool" where
  "rounding_ok rnd =
     (rnd 0 = Fin 0 \<and> rnd 1 = Fin 1
      \<and> (\<forall>x. rnd x \<noteq> NaN)
      \<and> (\<forall>x y. x \<le> y \<longrightarrow> fle (rnd x) (rnd y))
      \<and> (\<forall>x y. rnd x = Fin y \<longrightarrow> rnd y = Fin y))"

text \<open>
  The rounding that changes nothing. On the numbers of the concrete examples below,
  which are integers of a few digits and their quotients by powers of two, it is the
  rounding of the machine.
\<close>

definition exact :: rounding where
  "exact x = Fin x"

text \<open>
  \<open>float(s)\<close> is a parameter \<open>float_of\<close> of the functions that call it, with
  \<open>None\<close> for ValueError. For evaluation on concrete lines there is
  \<open>float_of_decimal\<close>: it reads an optional sign, digits and an optional
  fraction and gives their exact value; on every other string it gives
  \<open>None\<close>. It agrees with \<open>float\<close> on the strings of digits of the
  examples.
\<close>

definition float_of_decimal :: "string \<Rightarrow> pyfloat option" where
  "float_of_decimal s =
     (let neg = (case s of [] \<Rightarrow> False | c # cs \<Rightarrow> c = CHR ''-'');
          body = (case s of [] \<Rightarrow> []
                  | c # cs \<Rightarrow> if c = CHR ''-'' \<or> c = CHR ''+'' then cs else s);
          whole = takeWhile is_digit body;
          rest = dropWhile is_digit body;
          frac = (case rest of [] \<Rightarrow> [] | c # cs \<Rightarrow> cs);
          v = of_nat (digits_val whole) + of_nat (digits_val frac) / 10 ^ length frac
      in if (rest = [] \<or> hd rest = CHR ''.'') \<and> list_all is_digit frac
            \<and> \<not> (whole = [] \<and> frac = [])
         then Some (Fin (if neg then - v else v))
         else None)"

section \<open>Transactions and the record parser\<close>

record transaction =
  TransactionID :: "string option"
  Date :: "string option"
  ProductID :: "string option"
  ProductName :: "string option"
  Quantity :: "int option"
  UnitPrice :: "pyfloat option"
  CustomerID :: "string option"
  Region :: "string option"

text \<open>One pass of the loop of \<open>parse_transactions\<close>: \<open>None\<close> is \<open>continue\<close>.\<close>

definition parse_line :: "(string \<Rightarrow> pyfloat option) \<Rightarrow> string \<Rightarrow> transaction option" where
  "parse_line float_of line =
     (let parts = split (CHR ''|'') line in
      if length parts \<noteq> 8 then None
      else
        (let transaction_id = parts ! 0;
             date = parts ! 1;
             product_id = parts ! 2;
             product_name = remove_char (CHR '','') (parts ! 3);
             quantity = remove_char (CHR '','') (parts ! 4);
             unit_price = remove_char (CHR '','') (parts ! 5);
             customer_id = parts ! 6;
             region = parts ! 7
         in case py_int quantity of
              None \<Rightarrow> None
            | Some q \<Rightarrow>
               (case float_of unit_price of
                  None \<Rightarrow> None
                | Some p \<Rightarrow>
                    Some \<lparr>TransactionID = Some transaction_id, Date = Some date,
                          ProductID = Some product_id, ProductName = Some product_name,
                          Quantity = Some q, UnitPrice = Some p,
                          CustomerID = Some customer_id, Region = Some region\<rparr>)))"

fun parse_transactions :: "(string \<Rightarrow> pyfloat option) \<Rightarrow> string list \<Rightarrow> transaction list" where
  "parse_transactions float_of [] = []"
| "parse_transactions float_of (line # raw_lines) =
     (case parse_line float_of line of
        None \<Rightarrow> parse_transactions float_of raw_lines
      | Some transaction \<Rightarrow> transaction # parse_transactions float_of raw_lines)"

text \<open>\<open>split_sales_data\<close>: the line loop that skips blank lines and the header.\<close>

fun split_sales_data :: "string list \<Rightarrow> string list list" where
  "split_sales_data [] = []"
| "split_sales_data (line # lines) =
     (let line' = strip line in
      if line' = [] then split_sales_data lines
      else if startswith line' ''TransactionID'' then split_sales_data lines
      else split (CHR ''|'') line' # split_sales_data lines)"

text \<open>
  \<open>clean_sales_data\<close>: the validation of split rows. Only the valid records are
  returned; the count of invalid rows is printed.
\<close>

definition clean_row :: "(string \<Rightarrow> pyfloat option) \<Rightarrow> string list \<Rightarrow> transaction option" where
  "clean_row float_of row =
     (if length row \<noteq> 8 then None
      else
        (let transaction_id = row ! 0; date = row ! 1; product_id = row ! 2;
             product_name = row ! 3; quantity = row ! 4; unit_price = row ! 5;
             customer_id = row ! 6; region = row ! 7
         in if \<not> startswith transaction_id ''T'' then None
            else if customer_id = [] \<or> region = [] then None
            else
              (case py_int (remove_char (CHR '','') quantity) of
                 None \<Rightarrow> None
               | Some q \<Rightarrow>
                  (case float_of (remove_char (CHR '','') unit_price) of
                     None \<Rightarrow> None
                   | Some p \<Rightarrow>
                       if q \<le> 0 \<or> fle p (Fin 0) then None
                       else
                         Some \<lparr>TransactionID = Some transaction_id, Date = Some date,
                               ProductID = Some product_id,
                               ProductName = Some (remove_char (CHR '','') product_name),
                               Quantity = Some q, UnitPrice = Some p,
                               CustomerID = Some customer_id, Region = Some region\<rparr>))))"

fun clean_sales_data :: "(string \<Rightarrow> pyfloat option) \<Rightarrow> string list list \<Rightarrow> transaction list" where
  "clean_sales_data float_of [] = []"
| "clean_sales_data float_of (row # split_rows) =
     (case clean_row float_of row of
        None \<Rightarrow> clean_sales_data float_of split_rows
      | Some record \<Rightarrow> record # clean_sales_data float_of split_rows)"

section \<open>The validator and filter\<close>

text \<open>
  \<open>tx["Quantity"] * tx["UnitPrice"]\<close>, the derived amount: the integer is
  converted to a float, then the floats are multiplied.
\<close>

definition amount :: "rounding \<Rightarrow> transaction \<Rightarrow> py_error + pyfloat" where
  "amount rnd tx =
     (case getitem ''Quantity'' (Quantity tx) of
        Inl e \<Rightarrow> Inl e
      | Inr q \<Rightarrow>
         (case getitem ''UnitPrice'' (UnitPrice tx) of
            Inl e \<Rightarrow> Inl e
          | Inr p \<Rightarrow>
             (case float_of_int rnd q of
                Inl e \<Rightarrow> Inl e
              | Inr fq \<Rightarrow> Inr (fmul rnd fq p))))"

text \<open>
  The first loop of \<open>validate_and_filter\<close> collects \<open>tx.get("Region")\<close> in a
  set and the products \<open>tx.get("Quantity", 0) * tx.get("UnitPrice", 0)\<close> in a
  list; then \<open>sorted(available_regions)\<close> and the least and greatest product are
  printed. A product of an integer and a float converts the integer, which raises
  OverflowError when it is too large; a product of two integers does not. Sorting a
  set that holds None beside a string raises TypeError. The products are numbers and
  their comparison cannot raise. What is printed is not modelled.
\<close>

definition display_amount :: "rounding \<Rightarrow> transaction \<Rightarrow> py_error + unit" where
  "display_amount rnd tx =
     (case UnitPrice tx of
        None \<Rightarrow> Inr ()
      | Some p \<Rightarrow>
         (case float_of_int rnd (case Quantity tx of None \<Rightarrow> 0 | Some q \<Rightarrow> q) of
            Inl e \<Rightarrow> Inl e
          | Inr fq \<Rightarrow> Inr ()))"

fun display_loop :: "rounding \<Rightarrow> transaction list \<Rightarrow> py_error + unit" where
  "display_loop rnd [] = Inr ()"
| "display_loop rnd (tx # transactions) =
     (case display_amount rnd tx of
        Inl e \<Rightarrow> Inl e
      | Inr u \<Rightarrow> display_loop rnd transactions)"

definition display_ranges :: "rounding \<Rightarrow> transaction list \<Rightarrow> py_error + unit" where
  "display_ranges rnd transactions =
     (case display_loop rnd transactions of
        Inl e \<Rightarrow> Inl e
      | Inr u \<Rightarrow>
         if list_ex (\<lambda>tx. Region tx = None) transactions
            \<and> list_ex (\<lambda>tx. Region tx \<noteq> None) transactions
         then Inl TypeError else Inr ())"

text \<open>
  The body of the validation loop: True when the record is appended to
  \<open>valid_transactions\<close>, False when \<open>invalid_count\<close> is incremented.
\<close>

definition validate_tx :: "transaction \<Rightarrow> bool" where
  "validate_tx tx =
     (case TransactionID tx of None \<Rightarrow> False | Some transaction_id \<Rightarrow>
     (case Date tx of None \<Rightarrow> False | Some date \<Rightarrow>
     (case ProductID tx of None \<Rightarrow> False | Some product_id \<Rightarrow>
     (case ProductName tx of None \<Rightarrow> False | Some product_name \<Rightarrow>
     (case Quantity tx of None \<Rightarrow> False | Some quantity \<Rightarrow>
     (case UnitPrice tx of None \<Rightarrow> False | Some unit_price \<Rightarrow>
     (case CustomerID tx of None \<Rightarrow> False | Some customer_id \<Rightarrow>
     (case Region tx of None \<Rightarrow> False | Some region \<Rightarrow>
        (if quantity \<le> 0 \<or> fle unit_price (Fin 0) then False
         else if \<not> startswith transaction_id ''T'' then False
         else if \<not> startswith product_id ''P'' then False
         else if \<not> startswith customer_id ''C'' then False
         else True)))))))))"

fun validation_loop ::
  "transaction list \<Rightarrow> transaction list \<times> int \<Rightarrow> transaction list \<times> int" where
  "validation_loop [] acc = acc"
| "validation_loop (tx # transactions) (valid_transactions, invalid_count) =
     (if validate_tx tx
      then validation_loop transactions (valid_transactions @ [tx], invalid_count)
      else validation_loop transactions (valid_transactions, invalid_count + 1))"

text \<open>A list comprehension whose condition may raise.\<close>

fun filter_err :: "('a \<Rightarrow> py_error + bool) \<Rightarrow> 'a list \<Rightarrow> py_error + 'a list" where
  "filter_err p [] = Inr []"
| "filter_err p (x # xs) =
     (case p x of
        Inl e \<Rightarrow> Inl e
      | Inr b \<Rightarrow>
         (case filter_err p xs of
            Inl e \<Rightarrow> Inl e
          | Inr ys \<Rightarrow> Inr (if b then x # ys else ys)))"

text \<open>
  The region filter runs when \<open>region\<close> is truthy: neither None nor the empty
  string. It returns the kept records and \<open>filtered_by_region\<close>.
\<close>

definition region_filter ::
  "string option \<Rightarrow> transaction list \<Rightarrow> py_error + (transaction list \<times> int)" where
  "region_filter region valid_transactions =
     (case region of
        None \<Rightarrow> Inr (valid_transactions, 0)
      | Some r \<Rightarrow>
         if r = [] then Inr (valid_transactions, 0)
         else
           (case filter_err
                   (\<lambda>tx. case getitem ''Region'' (Region tx) of
                           Inl e \<Rightarrow> Inl e | Inr v \<Rightarrow> Inr (v = r))
                   valid_transactions of
              Inl e \<Rightarrow> Inl e
            | Inr kept \<Rightarrow>
                Inr (kept, int (length valid_transactions) - int (length kept))))"

definition in_range ::
  "rounding \<Rightarrow> pyfloat option \<Rightarrow> pyfloat option \<Rightarrow> transaction \<Rightarrow> py_error + bool" where
  "in_range rnd min_amount max_amount tx =
     (case amount rnd tx of
        Inl e \<Rightarrow> Inl e
      | Inr a \<Rightarrow>
         Inr (\<not> (case min_amount of None \<Rightarrow> False | Some lo \<Rightarrow> flt a lo)
              \<and> \<not> (case max_amount of None \<Rightarrow> False | Some hi \<Rightarrow> flt hi a)))"

definition amount_filter ::
  "rounding \<Rightarrow> pyfloat option \<Rightarrow> pyfloat option \<Rightarrow> transaction list
     \<Rightarrow> py_error + (transaction list \<times> int)" where
  "amount_filter rnd min_amount max_amount valid_transactions =
     (if min_amount \<noteq> None \<or> max_amount \<noteq> None
      then
        (case filter_err (in_range rnd min_amount max_amount) valid_transactions of
           Inl e \<Rightarrow> Inl e
         | Inr kept \<Rightarrow>
             Inr (kept, int (length valid_transactions) - int (length kept)))
      else Inr (valid_transactions, 0))"

record filter_summary =
  total_input :: int
  invalid :: int
  filtered_by_region :: int
  filtered_by_amount :: int
  final_count :: int

definition validate_and_filter ::
  "rounding \<Rightarrow> transaction list \<Rightarrow> string option \<Rightarrow> pyfloat option \<Rightarrow> pyfloat option
     \<Rightarrow> py_error + (transaction list \<times> int \<times> filter_summary)" where
  "validate_and_filter rnd transactions region min_amount max_amount =
     (case display_ranges rnd transactions of
        Inl e \<Rightarrow> Inl e
      | Inr u \<Rightarrow>
         (case validation_loop transactions ([], 0) of
            (validated, invalid_count) \<Rightarrow>
              (case region_filter region validated of
                 Inl e \<Rightarrow> Inl e
               | Inr (by_region, n_region) \<Rightarrow>
                  (case amount_filter rnd min_amount max_amount by_region of
                     Inl e \<Rightarrow> Inl e
                   | Inr (valid_transactions, n_amount) \<Rightarrow>
                       Inr (valid_transactions, invalid_count,
                            \<lparr>total_input = int (length transactions),
                             invalid = invalid_count,
                             filtered_by_region = n_region,
                             filtered_by_amount = n_amount,
                             final_count = int (length valid_transactions)\<rparr>)))))"

section \<open>The aggregation engine\<close>

text \<open>
  A Python dictionary keeps its keys in the order of their first insertion. The
  accumulators of the aggregation loops are association lists in that order;
  \<open>dict_update k init f d\<close> is
  \<^verbatim>\<open>if k not in d: d[k] = init\<close> followed by \<^verbatim>\<open>d[k] = f(d[k])\<close>.
\<close>

fun dict_update :: "'k \<Rightarrow> 'v \<Rightarrow> ('v \<Rightarrow> 'v) \<Rightarrow> ('k \<times> 'v) list \<Rightarrow> ('k \<times> 'v) list" where
  "dict_update k init f [] = [(k, f init)]"
| "dict_update k init f ((k', v) # d) =
     (if k' = k then (k', f v) # d else (k', v) # dict_update k init f d)"

text \<open>
  \<open>sorted(items, key=k, reverse=True)\<close>: the list is reversed, sorted by a stable
  ascending sort and reversed again, so that items with equal keys keep their order.
\<close>

definition sorted_desc :: "('a \<Rightarrow> 'b::linorder) \<Rightarrow> 'a list \<Rightarrow> 'a list" where
  "sorted_desc key xs = rev (sort_key key (rev xs))"

subsection \<open>\<open>calculate_total_revenue\<close>\<close>

fun revenue_loop :: "rounding \<Rightarrow> transaction list \<Rightarrow> pyfloat \<Rightarrow> py_error + pyfloat" where
  "revenue_loop rnd [] total_revenue = Inr total_revenue"
| "revenue_loop rnd (tx # transactions) total_revenue =
     (case amount rnd tx of
        Inl e \<Rightarrow> Inl e
      | Inr a \<Rightarrow> revenue_loop rnd transactions (fadd rnd total_revenue a))"

definition calculate_total_revenue :: "rounding \<Rightarrow> transaction list \<Rightarrow> py_error + pyfloat" where
  "calculate_total_revenue rnd transactions = revenue_loop rnd transactions (Fin 0)"

subsection \<open>\<open>region_wise_sales\<close>\<close>

record region_stats =
  total_sales :: pyfloat
  transaction_count :: int
  percentage :: pyfloat

text \<open>First pass: per region the pair (total_sales, transaction_count), and the overall total.\<close>

fun region_pass ::
  "rounding \<Rightarrow> transaction list \<Rightarrow> (string \<times> pyfloat \<times> int) list \<times> pyfloat
     \<Rightarrow> py_error + ((string \<times> pyfloat \<times> int) list \<times> pyfloat)" where
  "region_pass rnd [] acc = Inr acc"
| "region_pass rnd (tx # transactions) (region_data, total_sales_all_regions) =
     (case getitem ''Region'' (Region tx) of
        Inl e \<Rightarrow> Inl e
      | Inr region \<Rightarrow>
         (case amount rnd tx of
            Inl e \<Rightarrow> Inl e
          | Inr sale_amount \<Rightarrow>
              region_pass rnd transactions
                (dict_update region (Fin 0, 0) (\<lambda>(s, c). (fadd rnd s sale_amount, c + 1))
                   region_data,
                 fadd rnd total_sales_all_regions sale_amount)))"

text \<open>
  Second pass: the percentage of every region, in the order of the dictionary:
  \<open>(total_sales / total_sales_all_regions) * 100\<close>, rounded to two places. The
  factor 100 is the float 100.
\<close>

fun percentage_pass ::
  "rounding \<Rightarrow> pyfloat \<Rightarrow> (string \<times> pyfloat \<times> int) list
     \<Rightarrow> py_error + (string \<times> region_stats) list" where
  "percentage_pass rnd total_sales_all_regions [] = Inr []"
| "percentage_pass rnd total_sales_all_regions ((region, s, c) # region_data) =
     (case fdiv rnd s total_sales_all_regions of
        Inl e \<Rightarrow> Inl e
      | Inr d \<Rightarrow>
         (case percentage_pass rnd total_sales_all_regions region_data of
            Inl e \<Rightarrow> Inl e
          | Inr out \<Rightarrow>
              Inr ((region, \<lparr>total_sales = s, transaction_count = c,
                             percentage = round2 rnd (fmul rnd d (Fin 100))\<rparr>) # out)))"

definition region_wise_sales ::
  "rounding \<Rightarrow> transaction list \<Rightarrow> py_error + (string \<times> region_stats) list" where
  "region_wise_sales rnd transactions =
     (case region_pass rnd transactions ([], Fin 0) of
        Inl e \<Rightarrow> Inl e
      | Inr (region_data, total_sales_all_regions) \<Rightarrow>
         (case percentage_pass rnd total_sales_all_regions region_data of
            Inl e \<Rightarrow> Inl e
          | Inr with_percentage \<Rightarrow>
              Inr (sorted_desc (\<lambda>item. frank (total_sales (snd item))) with_percentage)))"

subsection \<open>\<open>top_selling_products\<close> and \<open>low_performing_products\<close>\<close>

text \<open>Both functions start with the same loop: per product name (total_quantity, total_revenue).\<close>

fun product_pass ::
  "rounding \<Rightarrow> transaction list \<Rightarrow> (string \<times> int \<times> pyfloat) list
     \<Rightarrow> py_error + (string \<times> int \<times> pyfloat) list" where
  "product_pass rnd [] product_data = Inr product_data"
| "product_pass rnd (tx # transactions) product_data =
     (case getitem ''ProductName'' (ProductName tx) of
        Inl e \<Rightarrow> Inl e
      | Inr product \<Rightarrow>
         (case getitem ''Quantity'' (Quantity tx) of
            Inl e \<Rightarrow> Inl e
          | Inr quantity \<Rightarrow>
             (case amount rnd tx of
                Inl e \<Rightarrow> Inl e
              | Inr r \<Rightarrow>
                  product_pass rnd transactions
                    (dict_update product (0, Fin 0) (\<lambda>(q, t). (q + quantity, fadd rnd t r))
                       product_data))))"

text \<open>\<open>xs[:n]\<close>: a negative \<open>n\<close> counts from the end.\<close>

definition slice_to :: "int \<Rightarrow> 'a list \<Rightarrow> 'a list" where
  "slice_to n xs = (if n < 0 then take (nat (int (length xs) + n)) xs else take (nat n) xs)"

definition top_selling_products ::
  "rounding \<Rightarrow> transaction list \<Rightarrow> int \<Rightarrow> py_error + (string \<times> int \<times> pyfloat) list" where
  "top_selling_products rnd transactions n =
     (case product_pass rnd transactions [] of
        Inl e \<Rightarrow> Inl e
      | Inr product_list \<Rightarrow> Inr (slice_to n (sorted_desc (\<lambda>x. fst (snd x)) product_list)))"

definition low_performing_products ::
  "rounding \<Rightarrow> transaction list \<Rightarrow> int \<Rightarrow> py_error + (string \<times> int \<times> pyfloat) list" where
  "low_performing_products rnd transactions threshold =
     (case product_pass rnd transactions [] of
        Inl e \<Rightarrow> Inl e
      | Inr product_data \<Rightarrow>
          Inr (sort_key (\<lambda>x. fst (snd x))
                 (filter (\<lambda>(product, total_quantity, total_revenue). total_quantity < threshold)
                    product_data)))"

subsection \<open>\<open>customer_analysis\<close>\<close>

text \<open>
  \<open>products_bought\<close> is a set that the function turns into a list at the end; the
  order of that list is not fixed by the language, so the model keeps the set.
\<close>

record customer_stats =
  total_spent :: pyfloat
  purchase_count :: int
  products_bought :: "string set"
  avg_order_value :: pyfloat

fun customer_pass ::
  "rounding \<Rightarrow> transaction list \<Rightarrow> (string \<times> pyfloat \<times> int \<times> string set) list
     \<Rightarrow> py_error + (string \<times> pyfloat \<times> int \<times> string set) list" where
  "customer_pass rnd [] customer_data = Inr customer_data"
| "customer_pass rnd (tx # transactions) customer_data =
     (case getitem ''CustomerID'' (CustomerID tx) of
        Inl e \<Rightarrow> Inl e
      | Inr customer_id \<Rightarrow>
         (case amount rnd tx of
            Inl e \<Rightarrow> Inl e
          | Inr a \<Rightarrow>
             (case getitem ''ProductName'' (ProductName tx) of
                Inl e \<Rightarrow> Inl e
              | Inr product \<Rightarrow>
                  customer_pass rnd transactions
                    (dict_update customer_id (Fin 0, 0, {})
                       (\<lambda>(s, c, ps). (fadd rnd s a, c + 1, insert product ps))
                       customer_data))))"

text \<open>\<open>total_spent / purchase_count\<close>: the count is converted to a float.\<close>

fun average_pass ::
  "rounding \<Rightarrow> (string \<times> pyfloat \<times> int \<times> string set) list
     \<Rightarrow> py_error + (string \<times> customer_stats) list" where
  "average_pass rnd [] = Inr []"
| "average_pass rnd ((customer_id, s, c, ps) # customer_data) =
     (case float_of_int rnd c of
        Inl e \<Rightarrow> Inl e
      | Inr fc \<Rightarrow>
         (case fdiv rnd s fc of
            Inl e \<Rightarrow> Inl e
          | Inr avg \<Rightarrow>
             (case average_pass rnd customer_data of
                Inl e \<Rightarrow> Inl e
              | Inr out \<Rightarrow>
                  Inr ((customer_id,
                        \<lparr>total_spent = s, purchase_count = c, products_bought = ps,
                         avg_order_value = round2 rnd avg\<rparr>) # out))))"

definition customer_analysis ::
  "rounding \<Rightarrow> transaction list \<Rightarrow> py_error + (string \<times> customer_stats) list" where
  "customer_analysis rnd transactions =
     (case customer_pass rnd transactions [] of
        Inl e \<Rightarrow> Inl e
      | Inr customer_data \<Rightarrow>
         (case average_pass rnd customer_data of
            Inl e \<Rightarrow> Inl e
          | Inr with_average \<Rightarrow>
              Inr (sorted_desc (\<lambda>item. frank (total_spent (snd item))) with_average)))"

subsection \<open>\<open>daily_sales_trend\<close>\<close>

record daily_stats =
  revenue :: pyfloat
  daily_transaction_count :: int
  unique_customers :: int

fun daily_pass ::
  "rounding \<Rightarrow> transaction list \<Rightarrow> (string \<times> pyfloat \<times> int \<times> string set) list
     \<Rightarrow> py_error + (string \<times> pyfloat \<times> int \<times> string set) list" where
  "daily_pass rnd [] daily_data = Inr daily_data"
| "daily_pass rnd (tx # transactions) daily_data =
     (case getitem ''Date'' (Date tx) of
        Inl e \<Rightarrow> Inl e
      | Inr date \<Rightarrow>
         (case amount rnd tx of
            Inl e \<Rightarrow> Inl e
          | Inr a \<Rightarrow>
             (case getitem ''CustomerID'' (CustomerID tx) of
                Inl e \<Rightarrow> Inl e
              | Inr customer \<Rightarrow>
                  daily_pass rnd transactions
                    (dict_update date (Fin 0, 0, {})
                       (\<lambda>(r, c, cs). (fadd rnd r a, c + 1, insert customer cs)) daily_data))))"

text \<open>Strings compare by code point, lexicographically, as the order on \<open>char list\<close> does.\<close>

definition daily_sales_trend ::
  "rounding \<Rightarrow> transaction list \<Rightarrow> py_error + (string \<times> daily_stats) list" where
  "daily_sales_trend rnd transactions =
     (case daily_pass rnd transactions [] of
        Inl e \<Rightarrow> Inl e
      | Inr daily_data \<Rightarrow>
          Inr (map (\<lambda>(date, r, c, cs).
                      (date, \<lparr>revenue = r, daily_transaction_count = c,
                              unique_customers = int (card cs)\<rparr>))
                 (sort_key fst daily_data)))"

subsection \<open>\<open>find_peak_sales_day\<close>\<close>

fun daily_totals_pass ::
  "rounding \<Rightarrow> transaction list \<Rightarrow> (string \<times> pyfloat \<times> int) list
     \<Rightarrow> py_error + (string \<times> pyfloat \<times> int) list" where
  "daily_totals_pass rnd [] daily_totals = Inr daily_totals"
| "daily_totals_pass rnd (tx # transactions) daily_totals =
     (case getitem ''Date'' (Date tx) of
        Inl e \<Rightarrow> Inl e
      | Inr date \<Rightarrow>
         (case amount rnd tx of
            Inl e \<Rightarrow> Inl e
          | Inr a \<Rightarrow>
              daily_totals_pass rnd transactions
                (dict_update date (Fin 0, 0) (\<lambda>(r, c). (fadd rnd r a, c + 1)) daily_totals)))"

fun peak_loop ::
  "(string \<times> pyfloat \<times> int) list \<Rightarrow> string option \<times> pyfloat \<times> int
     \<Rightarrow> string option \<times> pyfloat \<times> int" where
  "peak_loop [] peak = peak"
| "peak_loop ((date, r, c) # daily_totals) (peak_date, peak_revenue, peak_tx_count) =
     (if flt peak_revenue r then peak_loop daily_totals (Some date, r, c)
      else peak_loop daily_totals (peak_date, peak_revenue, peak_tx_count))"

definition find_peak_sales_day ::
  "rounding \<Rightarrow> transaction list \<Rightarrow> py_error + (string option \<times> pyfloat \<times> int)" where
  "find_peak_sales_day rnd transactions =
     (case daily_totals_pass rnd transactions [] of
        Inl e \<Rightarrow> Inl e
      | Inr daily_totals \<Rightarrow> Inr (peak_loop daily_totals (None, Fin 0, 0)))"

section \<open>The catalog mapper and the enrichment join\<close>

text \<open>
  A product of the catalog service is a dictionary read with \<open>get\<close>, which gives
  None for an absent key; so is the entry stored in the mapping. The fields of the
  product carry the prefix \<open>p_\<close>, those of the mapping's entry the source's names.
  The price and the rating are numbers that the program only copies; they are kept
  as rationals.
\<close>

record api_product =
  p_id :: "int option"
  p_title :: "string option"
  p_category :: "string option"
  p_brand :: "string option"
  p_price :: "rat option"
  p_rating :: "rat option"

record catalog_entry =
  title :: "string option"
  category :: "string option"
  brand :: "string option"
  rating :: "rat option"

text \<open>The key of the mapping is \<open>product.get("id")\<close>, which may be None; a later product overwrites an earlier one with the same key.\<close>

fun create_product_mapping_loop ::
  "api_product list \<Rightarrow> (int option \<rightharpoonup> catalog_entry) \<Rightarrow> (int option \<rightharpoonup> catalog_entry)" where
  "create_product_mapping_loop [] product_mapping = product_mapping"
| "create_product_mapping_loop (product # api_products) product_mapping =
     create_product_mapping_loop api_products
       (product_mapping(p_id product \<mapsto>
          \<lparr>title = p_title product, category = p_category product,
           brand = p_brand product, rating = p_rating product\<rparr>))"

definition create_product_mapping :: "api_product list \<Rightarrow> (int option \<rightharpoonup> catalog_entry)" where
  "create_product_mapping api_products = create_product_mapping_loop api_products Map.empty"

record enriched_transaction = transaction +
  API_Category :: "string option"
  API_Brand :: "string option"
  API_Rating :: "rat option"
  API_Match :: bool

text \<open>\<open>tx.copy()\<close> with the four enrichment fields set.\<close>

definition with_api ::
  "transaction \<Rightarrow> string option \<Rightarrow> string option \<Rightarrow> rat option \<Rightarrow> bool \<Rightarrow> enriched_transaction" where
  "with_api tx c b r m =
     \<lparr>TransactionID = TransactionID tx, Date = Date tx, ProductID = ProductID tx,
      ProductName = ProductName tx, Quantity = Quantity tx, UnitPrice = UnitPrice tx,
      CustomerID = CustomerID tx, Region = Region tx,
      API_Category = c, API_Brand = b, API_Rating = r, API_Match = m\<rparr>"

text \<open>
  \<open>numeric_id\<close> of the loop body: every \<open>P\<close> is removed from the product id, and
  the rest is read by \<open>int\<close>; None when \<open>int\<close> raises ValueError.
\<close>

definition numeric_id :: "transaction \<Rightarrow> int option" where
  "numeric_id tx =
     (let product_id_str = (case ProductID tx of None \<Rightarrow> [] | Some s \<Rightarrow> s)
      in py_int (remove_char (CHR ''P'') product_id_str))"

text \<open>
  The body of the loop of \<open>enrich_sales_data\<close>. The condition
  \<^verbatim>\<open>numeric_id and numeric_id in product_mapping\<close> is false for None and for 0.
\<close>

definition enrich_tx :: "(int option \<rightharpoonup> catalog_entry) \<Rightarrow> transaction \<Rightarrow> enriched_transaction" where
  "enrich_tx product_mapping tx =
     (case numeric_id tx of
        None \<Rightarrow> with_api tx None None None False
      | Some n \<Rightarrow>
         if n \<noteq> 0 \<and> product_mapping (Some n) \<noteq> None
         then
           (case product_mapping (Some n) of
              None \<Rightarrow> with_api tx None None None False
            | Some api_product \<Rightarrow>
                with_api tx (category api_product) (brand api_product) (rating api_product) True)
         else with_api tx None None None False)"

text \<open>
  The enriched list is also written to a file by \<open>save_enriched_data\<close>, which
  catches every exception of the writing; the model is the returned list.
\<close>

fun enrich_sales_data ::
  "transaction list \<Rightarrow> (int option \<rightharpoonup> catalog_entry) \<Rightarrow> enriched_transaction list" where
  "enrich_sales_data [] product_mapping = []"
| "enrich_sales_data (tx # transactions) product_mapping =
     enrich_tx product_mapping tx # enrich_sales_data transactions product_mapping"

section \<open>Notions used in the statements\<close>

text \<open>The records that the region filter and the amount filter keep.\<close>

definition keep_region :: "string option \<Rightarrow> transaction \<Rightarrow> bool" where
  "keep_region region tx =
     (case region of None \<Rightarrow> True | Some r \<Rightarrow> r = [] \<or> Region tx = Some r)"

definition keep_amount ::
  "rounding \<Rightarrow> pyfloat option \<Rightarrow> pyfloat option \<Rightarrow> transaction \<Rightarrow> bool" where
  "keep_amount rnd min_amount max_amount tx =
     (in_range rnd min_amount max_amount tx = Inr True)"

text \<open>The transaction of the line \<^verbatim>\<open>T001|2024-12-01|P101|Laptop|2|45000|C001|North\<close>.\<close>

definition tx_laptop :: transaction where
  "tx_laptop =
     \<lparr>TransactionID = Some ''T001'', Date = Some ''2024-12-01'', ProductID = Some ''P101'',
      ProductName = Some ''Laptop'', Quantity = Some 2, UnitPrice = Some (Fin 45000),
      CustomerID = Some ''C001'', Region = Some ''North''\<rparr>"

text \<open>
  The catalog key as the specification words it: the prefix \<open>P\<close> is stripped
  from the product id and the remainder is read as an integer.
\<close>

definition spec_catalog_key :: "transaction \<Rightarrow> int option" where
  "spec_catalog_key tx =
     (case ProductID tx of
        None \<Rightarrow> None
      | Some s \<Rightarrow> if startswith s ''P'' then py_int (drop 1 s) else py_int s)"

text \<open>A small catalog, with the identifiers 101, 0 and 12.\<close>

definition catalog_example :: "api_product list" where
  "catalog_example =
     [\<lparr>p_id = Some 101, p_title = Some ''Laptop Pro'', p_category = Some ''electronics'',
       p_brand = Some ''Acme'', p_price = Some 900, p_rating = Some (9 / 2)\<rparr>,
      \<lparr>p_id = Some 0, p_title = Some ''Zero'', p_category = Some ''misc'',
       p_brand = None, p_price = Some 1, p_rating = Some 3\<rparr>,
      \<lparr>p_id = Some 12, p_title = Some ''Twelve'', p_category = Some ''misc'',
       p_brand = None, p_price = Some 1, p_rating = Some 3\<rparr>]"

text \<open>
  The amount, region and date of a transaction as plain values, for the records in
  which they exist, and the accumulator that the loops over regions and dates
  build: per key the sum of the amounts, added in the order of the input to the
  float zero, and the number of transactions.
\<close>

definition amount_value :: "rounding \<Rightarrow> transaction \<Rightarrow> pyfloat" where
  "amount_value rnd tx = (case amount rnd tx of Inl e \<Rightarrow> Fin 0 | Inr a \<Rightarrow> a)"

definition region_of :: "transaction \<Rightarrow> string" where
  "region_of tx = (case Region tx of None \<Rightarrow> [] | Some r \<Rightarrow> r)"


definition tally ::
  "rounding \<Rightarrow> (transaction \<Rightarrow> string) \<Rightarrow> transaction list \<Rightarrow> (string \<times> pyfloat \<times> int) list
     \<Rightarrow> (string \<times> pyfloat \<times> int) list" where
  "tally rnd key T d =
     foldl (\<lambda>d tx. dict_update (key tx) (Fin 0, 0)
                      (\<lambda>(s, c). (fadd rnd s (amount_value rnd tx), c + 1)) d) d T"

text \<open>
  A positive float: an infinity, or a finite float greater than zero. A finite value
  is a float when rounding leaves it as it is.
\<close>

definition pos_float :: "rounding \<Rightarrow> pyfloat \<Rightarrow> bool" where
  "pos_float rnd a = (a = PInf \<or> (\<exists>x. a = Fin x \<and> 0 < x \<and> rnd x = Fin x))"

text \<open>
  A valid record, for the claims about collections of valid records: it passes the
  checks of the validator, its unit price is a float greater than zero (so it is not
  NaN, which the validator lets through), and its amount can be computed: the
  quantity is in the range of the floats.
\<close>

definition valid_record :: "rounding \<Rightarrow> transaction \<Rightarrow> bool" where
  "valid_record rnd tx =
     (validate_tx tx
      \<and> (\<exists>p. UnitPrice tx = Some p \<and> pos_float rnd p)
      \<and> (\<exists>a. amount rnd tx = Inr a))"

text \<open>A second transaction, of another day and region.\<close>

definition tx_south :: transaction where
  "tx_south =
     tx_laptop\<lparr>Date := Some ''2024-12-02'', Quantity := Some 1, UnitPrice := Some (Fin 30000),
               Region := Some ''South''\<rparr>"

section \<open>Properties of the validator\<close>

lemma validation_loop_eq:
  "validation_loop ts (vs, n) =
     (vs @ filter validate_tx ts, n + int (length (filter (\<lambda>t. \<not> validate_tx t) ts)))"
  by (induction ts arbitrary: vs n) auto

lemma filter_err_total:
  "(\<And>x. x \<in> set xs \<Longrightarrow> \<exists>b. p x = Inr b) \<Longrightarrow>
     filter_err p xs = Inr (filter (\<lambda>x. p x = Inr True) xs)"
proof (induction xs)
  case Nil
  then show ?case by simp
next
  case (Cons x xs)
  then obtain b where b: "p x = Inr b" by auto
  have "filter_err p xs = Inr (filter (\<lambda>x. p x = Inr True) xs)"
    using Cons by simp
  with b show ?case by simp
qed

lemma validate_tx_fields:
  assumes "validate_tx tx"
  shows "\<exists>tid d pid pn q p cid r.
           TransactionID tx = Some tid \<and> Date tx = Some d \<and> ProductID tx = Some pid \<and>
           ProductName tx = Some pn \<and> Quantity tx = Some q \<and> UnitPrice tx = Some p \<and>
           CustomerID tx = Some cid \<and> Region tx = Some r \<and> 0 < q \<and> \<not> fle p (Fin 0) \<and>
           startswith tid ''T'' \<and> startswith pid ''P'' \<and> startswith cid ''C''"
  using assms unfolding validate_tx_def
  by (auto split: option.splits if_splits)

lemma display_loop_iff:
  "display_loop rnd T = Inr () \<longleftrightarrow> (\<forall>tx \<in> set T. display_amount rnd tx = Inr ())"
  by (induction T) (auto split: sum.splits)

lemma display_loop_error:
  "display_loop rnd T = Inl e \<Longrightarrow> e = OverflowError"
  by (induction T) (auto simp: display_amount_def float_of_int_def
        split: sum.splits option.splits pyfloat.splits)

lemma display_ranges_ok:
  "display_ranges rnd T = Inr () \<longleftrightarrow>
     (\<forall>tx \<in> set T. display_amount rnd tx = Inr ())
     \<and> \<not> (list_ex (\<lambda>tx. Region tx = None) T \<and> list_ex (\<lambda>tx. Region tx \<noteq> None) T)"
proof (cases "display_loop rnd T")
  case (Inl e)
  then have "\<not> (\<forall>tx \<in> set T. display_amount rnd tx = Inr ())"
    using display_loop_iff[of rnd T] by simp
  with Inl show ?thesis by (simp add: display_ranges_def)
next
  case (Inr u)
  then have "\<forall>tx \<in> set T. display_amount rnd tx = Inr ()"
    using display_loop_iff[of rnd T] by simp
  with Inr show ?thesis by (simp add: display_ranges_def)
qed

lemma validate_tx_amount:
  "validate_tx tx \<Longrightarrow> display_amount rnd tx = Inr () \<Longrightarrow> \<exists>a. amount rnd tx = Inr a"
  by (drule validate_tx_fields)
     (auto simp: amount_def display_amount_def getitem_def split: sum.splits)

lemma validate_tx_display:
  "validate_tx tx \<Longrightarrow> amount rnd tx = Inr a \<Longrightarrow> display_amount rnd tx = Inr ()"
  by (drule validate_tx_fields)
     (auto simp: amount_def display_amount_def getitem_def split: sum.splits)

lemma validate_tx_region:
  "validate_tx tx \<Longrightarrow> \<exists>r. Region tx = Some r"
  by (drule validate_tx_fields) auto

lemma region_filter_valid:
  assumes "\<And>tx. tx \<in> set vs \<Longrightarrow> validate_tx tx"
  shows "region_filter region vs =
           Inr (filter (keep_region region) vs,
                int (length vs) - int (length (filter (keep_region region) vs)))"
proof (cases "region = None \<or> region = Some []")
  case True
  then show ?thesis by (auto simp: region_filter_def keep_region_def)
next
  case False
  then obtain r where r: "region = Some r" "r \<noteq> []" by auto
  let ?p = "\<lambda>tx. case getitem ''Region'' (Region tx) of Inl e \<Rightarrow> Inl e | Inr v \<Rightarrow> Inr (v = r)"
  have tot: "\<And>tx. tx \<in> set vs \<Longrightarrow> \<exists>b. ?p tx = Inr b"
  proof -
    fix tx assume "tx \<in> set vs"
    then obtain r' where "Region tx = Some r'"
      using assms validate_tx_region by blast
    then show "\<exists>b. ?p tx = Inr b" by (simp add: getitem_def)
  qed
  have eq: "filter (\<lambda>tx. ?p tx = Inr True) vs = filter (keep_region region) vs"
    by (rule filter_cong) (auto simp: keep_region_def r getitem_def split: option.splits)
  show ?thesis
    using filter_err_total[of vs ?p, OF tot] eq r by (simp add: region_filter_def)
qed

lemma amount_filter_valid:
  assumes "\<And>tx. tx \<in> set vs \<Longrightarrow> validate_tx tx"
    and "\<And>tx. tx \<in> set vs \<Longrightarrow> display_amount rnd tx = Inr ()"
  shows "amount_filter rnd mn mx vs =
           Inr (filter (keep_amount rnd mn mx) vs,
                int (length vs) - int (length (filter (keep_amount rnd mn mx) vs)))"
proof (cases "mn \<noteq> None \<or> mx \<noteq> None")
  case True
  have tot: "\<And>tx. tx \<in> set vs \<Longrightarrow> \<exists>b. in_range rnd mn mx tx = Inr b"
  proof -
    fix tx assume h: "tx \<in> set vs"
    obtain a where "amount rnd tx = Inr a"
      using validate_tx_amount[OF assms(1)[OF h] assms(2)[OF h]] by blast
    then show "\<exists>b. in_range rnd mn mx tx = Inr b" by (simp add: in_range_def)
  qed
  have "keep_amount rnd mn mx = (\<lambda>tx. in_range rnd mn mx tx = Inr True)"
    by (rule ext) (simp add: keep_amount_def)
  then show ?thesis
    using filter_err_total[of vs "in_range rnd mn mx", OF tot] True
    by (simp add: amount_filter_def)
next
  case False
  have "keep_amount rnd mn mx tx" if h: "tx \<in> set vs" for tx
  proof -
    obtain a where "amount rnd tx = Inr a"
      using validate_tx_amount[OF assms(1)[OF h] assms(2)[OF h]] by blast
    with False show ?thesis by (simp add: keep_amount_def in_range_def)
  qed
  then have "filter (keep_amount rnd mn mx) vs = vs"
    by (simp add: filter_True)
  with False show ?thesis by (simp add: amount_filter_def)
qed

lemma validate_and_filter_error:
  "display_ranges rnd T = Inl e \<Longrightarrow> validate_and_filter rnd T region mn mx = Inl e"
  by (simp add: validate_and_filter_def)

lemma validate_and_filter_char:
  assumes "display_ranges rnd T = Inr ()"
  shows "validate_and_filter rnd T region mn mx =
        (let v0 = filter validate_tx T;
             v1 = filter (keep_region region) v0;
             v2 = filter (keep_amount rnd mn mx) v1
         in Inr (v2, int (length (filter (\<lambda>t. \<not> validate_tx t) T)),
                 \<lparr>total_input = int (length T),
                  invalid = int (length (filter (\<lambda>t. \<not> validate_tx t) T)),
                  filtered_by_region = int (length v0) - int (length v1),
                  filtered_by_amount = int (length v1) - int (length v2),
                  final_count = int (length v2)\<rparr>))"
proof -
  let ?v0 = "filter validate_tx T"
  let ?v1 = "filter (keep_region region) ?v0"
  have d: "\<And>tx. tx \<in> set T \<Longrightarrow> display_amount rnd tx = Inr ()"
    using assms display_ranges_ok[of rnd T] by simp
  have r: "region_filter region ?v0 = Inr (?v1, int (length ?v0) - int (length ?v1))"
    by (rule region_filter_valid) simp
  have a: "amount_filter rnd mn mx ?v1 =
             Inr (filter (keep_amount rnd mn mx) ?v1,
                  int (length ?v1) - int (length (filter (keep_amount rnd mn mx) ?v1)))"
    by (rule amount_filter_valid) (simp_all add: d)
  show ?thesis
    unfolding validate_and_filter_def
    by (simp add: assms validation_loop_eq r a Let_def del: filter_filter)
qed

lemma validate_and_filter_returns:
  assumes "validate_and_filter rnd T region mn mx = Inr res"
  shows "display_ranges rnd T = Inr ()"
proof (cases "display_ranges rnd T")
  case (Inl e)
  with assms show ?thesis by (simp add: validate_and_filter_error)
next
  case (Inr u)
  then show ?thesis by simp
qed

lemma keep_none [simp]: "keep_region None tx" "keep_region (Some []) tx"
  by (simp_all add: keep_region_def)

lemma keep_amount_none:
  "validate_tx tx \<Longrightarrow> display_amount rnd tx = Inr () \<Longrightarrow> keep_amount rnd None None tx"
  by (drule validate_tx_amount) (auto simp: keep_amount_def in_range_def)

lemma filter_keep_amount_none:
  assumes "\<And>tx. tx \<in> set T \<Longrightarrow> display_amount rnd tx = Inr ()"
  shows "filter (keep_amount rnd None None) (filter validate_tx T) = filter validate_tx T"
  by (rule filter_True) (simp add: keep_amount_none assms)

lemma validate_and_filter_example:
  "validate_and_filter exact
       [tx_laptop, tx_laptop\<lparr>Quantity := Some 0\<rparr>, tx_laptop\<lparr>Region := Some ''South''\<rparr>]
       (Some ''North'') None None
     = Inr ([tx_laptop], 1,
            \<lparr>total_input = 3, invalid = 1, filtered_by_region = 1, filtered_by_amount = 0,
             final_count = 1\<rparr>)"
  by (simp add: validate_and_filter_def display_ranges_def display_amount_def float_of_int_def
        exact_def validate_tx_def startswith_def tx_laptop_def region_filter_def
        amount_filter_def getitem_def)

lemma validate_and_filter_example_empty_region:
  "validate_and_filter exact [tx_laptop\<lparr>Region := Some []\<rparr>] None None None
     = Inr ([tx_laptop\<lparr>Region := Some []\<rparr>], 0,
            \<lparr>total_input = 1, invalid = 0, filtered_by_region = 0, filtered_by_amount = 0,
             final_count = 1\<rparr>)"
  by (simp add: validate_and_filter_def display_ranges_def display_amount_def float_of_int_def
        exact_def validate_tx_def startswith_def tx_laptop_def region_filter_def
        amount_filter_def getitem_def)

lemma parse_example_empty_region:
  "parse_transactions float_of_decimal [''T001|2024-12-01|P101|Laptop|2|45000|C001|'']
     = [tx_laptop\<lparr>Region := Some []\<rparr>]"
  by (simp add: parse_line_def remove_char_def py_int_def int_space_def is_digit_def
        digits_val_def float_of_decimal_def tx_laptop_def)

lemma clean_example_empty_region:
  "clean_sales_data float_of_decimal
     (split_sales_data [''T001|2024-12-01|P101|Laptop|2|45000|C001|'']) = []"
  by (simp add: strip_def isspace_def startswith_def clean_row_def)

text \<open>
  Claim C2. Every record of \<open>valid_records\<close> has all eight fields, a positive
  quantity and unit price, the prefixes T, P and C, and a non-empty region; a record
  with an empty region is counted invalid and excluded. The code does not do the
  last: the line \<^verbatim>\<open>T001|2024-12-01|P101|Laptop|2|45000|C001|\<close> parses to a record
  with the empty region, which \<open>validate_and_filter\<close> returns as valid with
  \<open>invalid_count = 0\<close>, while \<open>clean_sales_data\<close> rejects the same line.
\<close>

theorem empty_region_record_is_kept:
  "parse_transactions float_of_decimal [''T001|2024-12-01|P101|Laptop|2|45000|C001|'']
     = [tx_laptop\<lparr>Region := Some []\<rparr>]
   \<and> validate_and_filter exact [tx_laptop\<lparr>Region := Some []\<rparr>] None None None
     = Inr ([tx_laptop\<lparr>Region := Some []\<rparr>], 0,
            \<lparr>total_input = 1, invalid = 0, filtered_by_region = 0, filtered_by_amount = 0,
             final_count = 1\<rparr>)
   \<and> clean_sales_data float_of_decimal
        (split_sales_data [''T001|2024-12-01|P101|Laptop|2|45000|C001|'']) = []"
  using parse_example_empty_region validate_and_filter_example_empty_region
    clean_example_empty_region
  by simp

text \<open>
  Claim C5. Whenever \<open>validate_and_filter\<close> returns, its summary satisfies
  \<open>total_input = invalid + filtered_by_region + filtered_by_amount + final_count\<close>,
  \<open>final_count\<close> is the length of the returned list, and with no filter the
  invalid count plus the length of the returned list is the length of the input.
  It returns for every input whose printed products can be computed and in which the
  key Region is present in all records or in none; otherwise the first loop raises
  OverflowError, or printing the sorted regions raises TypeError.
\<close>

theorem validate_and_filter_accounting:
  "((\<forall>tx \<in> set T. display_amount rnd tx = Inr ())
      \<and> \<not> (list_ex (\<lambda>tx. Region tx = None) T \<and> list_ex (\<lambda>tx. Region tx \<noteq> None) T)
      \<longrightarrow> (\<exists>res. validate_and_filter rnd T region mn mx = Inr res))
   \<and> (\<forall>valid n_inv s. validate_and_filter rnd T region mn mx = Inr (valid, n_inv, s) \<longrightarrow>
         total_input s = invalid s + filtered_by_region s + filtered_by_amount s + final_count s
         \<and> final_count s = int (length valid)
         \<and> invalid s = n_inv
         \<and> total_input s = int (length T)
         \<and> (region = None \<and> mn = None \<and> mx = None
              \<longrightarrow> n_inv + int (length valid) = int (length T)))"
proof (intro conjI impI allI)
  assume "(\<forall>tx \<in> set T. display_amount rnd tx = Inr ())
      \<and> \<not> (list_ex (\<lambda>tx. Region tx = None) T \<and> list_ex (\<lambda>tx. Region tx \<noteq> None) T)"
  then have "display_ranges rnd T = Inr ()"
    using display_ranges_ok[of rnd T] by simp
  then show "\<exists>res. validate_and_filter rnd T region mn mx = Inr res"
    by (simp add: validate_and_filter_char Let_def)
next
  fix valid n_inv s
  assume r: "validate_and_filter rnd T region mn mx = Inr (valid, n_inv, s)"
  have d: "display_ranges rnd T = Inr ()"
    by (rule validate_and_filter_returns[OF r])
  have da: "\<And>tx. tx \<in> set T \<Longrightarrow> display_amount rnd tx = Inr ()"
    using d display_ranges_ok[of rnd T] by simp
  have len: "int (length (filter (\<lambda>t. \<not> validate_tx t) T)) + int (length (filter validate_tx T))
               = int (length T)"
    using sum_length_filter_compl[of validate_tx T] by linarith
  note c = r[unfolded validate_and_filter_char[OF d] Let_def]
  show "total_input s = invalid s + filtered_by_region s + filtered_by_amount s + final_count s"
    using c len by auto
  show "final_count s = int (length valid)" using c by auto
  show "invalid s = n_inv" using c by auto
  show "total_input s = int (length T)" using c by auto
  show "n_inv + int (length valid) = int (length T)"
    if "region = None \<and> mn = None \<and> mx = None"
    using c len that filter_keep_amount_none[of T rnd, OF da]
    by (auto simp del: filter_filter)
qed

theorem validate_and_filter_accounting_witness:
  "validate_and_filter exact
       [tx_laptop, tx_laptop\<lparr>Quantity := Some 0\<rparr>, tx_laptop\<lparr>Region := Some ''South''\<rparr>]
       (Some ''North'') None None
     = Inr ([tx_laptop], 1,
            \<lparr>total_input = 3, invalid = 1, filtered_by_region = 1, filtered_by_amount = 0,
             final_count = 1\<rparr>)
   \<and> (3::int) = 1 + 1 + 0 + 1"
  using validate_and_filter_example
    validate_and_filter_accounting
      [of "[tx_laptop, tx_laptop\<lparr>Quantity := Some 0\<rparr>, tx_laptop\<lparr>Region := Some ''South''\<rparr>]"
          exact "Some ''North''" None None]
  by simp

text \<open>
  Claim C8. Applying \<open>validate_and_filter\<close> with the same arguments to the valid
  records of a first application returns the same records: the second pass counts no
  invalid record and filters nothing.
\<close>

theorem validate_and_filter_idempotent:
  assumes "validate_and_filter rnd T region mn mx = Inr (valid, n_inv, s)"
  shows "validate_and_filter rnd valid region mn mx =
           Inr (valid, 0,
                \<lparr>total_input = int (length valid), invalid = 0, filtered_by_region = 0,
                 filtered_by_amount = 0, final_count = int (length valid)\<rparr>)"
proof -
  have d: "display_ranges rnd T = Inr ()"
    by (rule validate_and_filter_returns[OF assms])
  have da: "\<And>tx. tx \<in> set T \<Longrightarrow> display_amount rnd tx = Inr ()"
    using d display_ranges_ok[of rnd T] by simp
  have v: "valid = filter (keep_amount rnd mn mx)
                     (filter (keep_region region) (filter validate_tx T))"
    using assms[unfolded validate_and_filter_char[OF d] Let_def] by auto
  have ok: "\<And>tx. tx \<in> set valid \<Longrightarrow> validate_tx tx"
    and kr: "\<And>tx. tx \<in> set valid \<Longrightarrow> keep_region region tx"
    and ka: "\<And>tx. tx \<in> set valid \<Longrightarrow> keep_amount rnd mn mx tx"
    and sub: "\<And>tx. tx \<in> set valid \<Longrightarrow> tx \<in> set T"
    by (simp_all add: v)
  have f0: "filter validate_tx valid = valid" using ok by (simp add: filter_True)
  have f0': "filter (\<lambda>t. \<not> validate_tx t) valid = []" using ok by (simp add: filter_empty_conv)
  have f1: "filter (keep_region region) valid = valid" using kr by (simp add: filter_True)
  have f2: "filter (keep_amount rnd mn mx) valid = valid" using ka by (simp add: filter_True)
  have nm: "\<not> list_ex (\<lambda>tx. Region tx = None) valid"
    using ok validate_tx_region by (fastforce simp: list_ex_iff)
  have d2: "display_ranges rnd valid = Inr ()"
    using nm da sub display_ranges_ok[of rnd valid] by simp
  show ?thesis
    by (simp add: validate_and_filter_char[OF d2] Let_def f0 f0' f1 f2 del: filter_filter)
qed

theorem validate_and_filter_idempotent_witness:
  "validate_and_filter exact
       [tx_laptop, tx_laptop\<lparr>Quantity := Some 0\<rparr>, tx_laptop\<lparr>Region := Some ''South''\<rparr>]
       (Some ''North'') None None
     = Inr ([tx_laptop], 1,
            \<lparr>total_input = 3, invalid = 1, filtered_by_region = 1, filtered_by_amount = 0,
             final_count = 1\<rparr>)
   \<and> validate_and_filter exact [tx_laptop] (Some ''North'') None None
     = Inr ([tx_laptop], 0,
            \<lparr>total_input = 1, invalid = 0, filtered_by_region = 0, filtered_by_amount = 0,
             final_count = 1\<rparr>)"
  using validate_and_filter_example
    validate_and_filter_idempotent [OF validate_and_filter_example]
  by simp

text \<open>
  Claim C10. With the empty string as \<open>region\<close> the function behaves as with no
  region filter: the result is that of the call with \<open>region = None\<close>, the
  summary has \<open>filtered_by_region = 0\<close>, and the records returned are the
  validated records that the amount filter keeps, whatever their region; all the
  validated records when no amount bound is given.
\<close>

theorem validate_and_filter_empty_region:
  "validate_and_filter rnd T (Some []) mn mx = validate_and_filter rnd T None mn mx
   \<and> (\<forall>valid n_inv s. validate_and_filter rnd T (Some []) mn mx = Inr (valid, n_inv, s) \<longrightarrow>
         filtered_by_region s = 0
         \<and> valid = filter (keep_amount rnd mn mx) (filter validate_tx T)
         \<and> (mn = None \<and> mx = None \<longrightarrow> valid = filter validate_tx T))"
proof (intro conjI impI allI)
  show "validate_and_filter rnd T (Some []) mn mx = validate_and_filter rnd T None mn mx"
  proof (cases "display_ranges rnd T")
    case (Inl e)
    then show ?thesis by (simp add: validate_and_filter_error)
  next
    case (Inr u)
    then have "display_ranges rnd T = Inr ()" by simp
    then show ?thesis
      by (simp add: validate_and_filter_char Let_def del: filter_filter)
  qed
next
  fix valid n_inv s
  assume r: "validate_and_filter rnd T (Some []) mn mx = Inr (valid, n_inv, s)"
  have d: "display_ranges rnd T = Inr ()"
    by (rule validate_and_filter_returns[OF r])
  have da: "\<And>tx. tx \<in> set T \<Longrightarrow> display_amount rnd tx = Inr ()"
    using d display_ranges_ok[of rnd T] by simp
  note c = r[unfolded validate_and_filter_char[OF d] Let_def]
  show "filtered_by_region s = 0" using c by (auto simp del: filter_filter)
  show v: "valid = filter (keep_amount rnd mn mx) (filter validate_tx T)"
    using c by (auto simp del: filter_filter)
  show "valid = filter validate_tx T" if "mn = None \<and> mx = None"
    using v that filter_keep_amount_none[of T rnd, OF da] by simp
qed

theorem validate_and_filter_empty_region_witness:
  "validate_and_filter exact [tx_laptop, tx_laptop\<lparr>Region := Some ''South''\<rparr>] (Some []) None None
     = Inr ([tx_laptop, tx_laptop\<lparr>Region := Some ''South''\<rparr>], 0,
            \<lparr>total_input = 2, invalid = 0, filtered_by_region = 0, filtered_by_amount = 0,
             final_count = 2\<rparr>)
   \<and> validate_and_filter exact [tx_laptop, tx_laptop\<lparr>Region := Some ''South''\<rparr>] (Some []) None None
     = validate_and_filter exact [tx_laptop, tx_laptop\<lparr>Region := Some ''South''\<rparr>] None None None"
proof -
  have "validate_and_filter exact [tx_laptop, tx_laptop\<lparr>Region := Some ''South''\<rparr>]
          (Some []) None None
     = Inr ([tx_laptop, tx_laptop\<lparr>Region := Some ''South''\<rparr>], 0,
            \<lparr>total_input = 2, invalid = 0, filtered_by_region = 0, filtered_by_amount = 0,
             final_count = 2\<rparr>)"
    by (simp add: validate_and_filter_def display_ranges_def display_amount_def float_of_int_def
          exact_def validate_tx_def startswith_def tx_laptop_def region_filter_def
          amount_filter_def getitem_def)
  then show ?thesis
    using validate_and_filter_empty_region
            [of exact "[tx_laptop, tx_laptop\<lparr>Region := Some ''South''\<rparr>]" None None]
    by simp
qed

section \<open>Properties of the enrichment join\<close>

lemma truncate_with_api [simp]: "transaction.truncate (with_api tx c b r m) = tx"
  by (simp add: with_api_def transaction.truncate_def)

lemma with_api_sel [simp]:
  "API_Category (with_api tx c b r m) = c" "API_Brand (with_api tx c b r m) = b"
  "API_Rating (with_api tx c b r m) = r" "API_Match (with_api tx c b r m) = m"
  by (simp_all add: with_api_def)

lemma truncate_enrich_tx [simp]: "transaction.truncate (enrich_tx m tx) = tx"
  by (simp add: enrich_tx_def split: option.splits)

lemma enrich_tx_empty [simp]: "\<not> API_Match (enrich_tx Map.empty tx)"
  by (simp add: enrich_tx_def split: option.splits)

lemma enrich_sales_data_map: "enrich_sales_data T m = map (enrich_tx m) T"
  by (induction T) simp_all

text \<open>
  Claim C3. \<open>enrich_sales_data\<close> returns one enriched record per transaction,
  in the order of the input: the list has the length of the input and, stripped of the
  four enrichment fields, is the input. The mapping made from the empty catalog is
  empty, and with it every record has \<open>API_Match = False\<close>.
\<close>

theorem enrich_sales_data_cardinality:
  "length (enrich_sales_data T m) = length T
   \<and> map transaction.truncate (enrich_sales_data T m) = T
   \<and> create_product_mapping [] = Map.empty
   \<and> (\<forall>e \<in> set (enrich_sales_data T (create_product_mapping [])). \<not> API_Match e)"
  by (simp add: enrich_sales_data_map create_product_mapping_def comp_def)

lemma mapping_example:
  "create_product_mapping catalog_example (Some 101)
     = Some \<lparr>title = Some ''Laptop Pro'', category = Some ''electronics'',
             brand = Some ''Acme'', rating = Some (9 / 2)\<rparr>"
  "create_product_mapping catalog_example (Some 0) 
     = Some \<lparr>title = Some ''Zero'', category = Some ''misc'', brand = None, rating = Some 3\<rparr>"
  "create_product_mapping catalog_example (Some 12) 
     = Some \<lparr>title = Some ''Twelve'', category = Some ''misc'', brand = None, rating = Some 3\<rparr>"
  "create_product_mapping catalog_example (Some 999) = None"
  by (simp_all add: create_product_mapping_def catalog_example_def)

lemma numeric_id_examples:
  "numeric_id tx_laptop = Some 101"
  "numeric_id (tx_laptop\<lparr>ProductID := Some ''P999''\<rparr>) = Some 999"
  "numeric_id (tx_laptop\<lparr>ProductID := Some ''P0''\<rparr>) = Some 0"
  "numeric_id (tx_laptop\<lparr>ProductID := Some ''P1P2''\<rparr>) = Some 12"
  "numeric_id (tx_laptop\<lparr>ProductID := Some ''PX1''\<rparr>) = None"
  by (simp_all add: numeric_id_def tx_laptop_def remove_char_def py_int_def int_space_def
        is_digit_def digits_val_def)

lemma spec_key_examples:
  "spec_catalog_key (tx_laptop\<lparr>ProductID := Some ''P0''\<rparr>) = Some 0"
  "spec_catalog_key (tx_laptop\<lparr>ProductID := Some ''P1P2''\<rparr>) = None"
  by (simp_all add: spec_catalog_key_def startswith_def tx_laptop_def py_int_def int_space_def
        is_digit_def digits_val_def)

text \<open>
  Claim C1, as stated, fails. For the product id \<open>P1P2\<close> the remainder after the
  prefix is not an integer, so the key of the claim is absent, yet the code matches
  the catalog entry 12. For the product id \<open>P0\<close> the key 0 is in the mapping, yet
  the code reports no match.
\<close>

theorem enrich_key_counterexample:
  "spec_catalog_key (tx_laptop\<lparr>ProductID := Some ''P1P2''\<rparr>) = None
   \<and> API_Match (enrich_tx (create_product_mapping catalog_example)
                  (tx_laptop\<lparr>ProductID := Some ''P1P2''\<rparr>))
   \<and> spec_catalog_key (tx_laptop\<lparr>ProductID := Some ''P0''\<rparr>) = Some 0
   \<and> create_product_mapping catalog_example (Some 0) \<noteq> None
   \<and> \<not> API_Match (enrich_tx (create_product_mapping catalog_example)
                    (tx_laptop\<lparr>ProductID := Some ''P0''\<rparr>))"
  by (simp add: spec_key_examples enrich_tx_def numeric_id_examples mapping_example)

lemma py_int_drop_P:
  assumes "startswith s ''P''" "CHR ''P'' \<notin> set (drop 1 s)"
  shows "remove_char (CHR ''P'') s = drop 1 s"
proof -
  from assms(1) obtain t where s: "s = CHR ''P'' # t"
    by (cases s) (auto simp: startswith_def)
  with assms(2) show ?thesis
    by (auto simp: remove_char_def filter_id_conv)
qed

text \<open>
  Claim C1, amended. The key is \<open>int\<close> of the product id with every \<open>P\<close>
  removed, absent when \<open>int\<close> fails; for a product id that is \<open>P\<close> followed
  by a remainder without \<open>P\<close> it is the key of the specification. When the key is
  not zero and is in the mapping, the enriched record carries the category, brand and
  rating of that entry and \<open>API_Match = True\<close>; when the key is absent or not in
  the mapping, the three fields are None and \<open>API_Match = False\<close>. The enriched
  record is a copy of the transaction.
\<close>

theorem enrich_tx_contract:
  "numeric_id tx = py_int (remove_char (CHR ''P'') (case ProductID tx of None \<Rightarrow> [] | Some s \<Rightarrow> s))
   \<and> (\<forall>s. ProductID tx = Some s \<and> startswith s ''P'' \<and> CHR ''P'' \<notin> set (drop 1 s)
          \<longrightarrow> numeric_id tx = spec_catalog_key tx)
   \<and> (\<forall>n entry. numeric_id tx = Some n \<and> n \<noteq> 0 \<and> m (Some n) = Some entry \<longrightarrow>
          API_Category (enrich_tx m tx) = category entry
          \<and> API_Brand (enrich_tx m tx) = brand entry
          \<and> API_Rating (enrich_tx m tx) = rating entry
          \<and> API_Match (enrich_tx m tx))
   \<and> (numeric_id tx = None \<or> (\<exists>n. numeric_id tx = Some n \<and> m (Some n) = None) \<longrightarrow>
          API_Category (enrich_tx m tx) = None
          \<and> API_Brand (enrich_tx m tx) = None
          \<and> API_Rating (enrich_tx m tx) = None
          \<and> \<not> API_Match (enrich_tx m tx))
   \<and> transaction.truncate (enrich_tx m tx) = tx"
proof (intro conjI allI impI)
  show "numeric_id tx
          = py_int (remove_char (CHR ''P'') (case ProductID tx of None \<Rightarrow> [] | Some s \<Rightarrow> s))"
    by (simp add: numeric_id_def)
next
  fix s
  assume "ProductID tx = Some s \<and> startswith s ''P'' \<and> CHR ''P'' \<notin> set (drop 1 s)"
  then show "numeric_id tx = spec_catalog_key tx"
    by (simp add: numeric_id_def spec_catalog_key_def py_int_drop_P)
next
  fix n entry
  assume h: "numeric_id tx = Some n \<and> n \<noteq> 0 \<and> m (Some n) = Some entry"
  then have e: "enrich_tx m tx = with_api tx (category entry) (brand entry) (rating entry) True"
    by (simp add: enrich_tx_def)
  show "API_Category (enrich_tx m tx) = category entry" by (simp add: e)
  show "API_Brand (enrich_tx m tx) = brand entry" by (simp add: e)
  show "API_Rating (enrich_tx m tx) = rating entry" by (simp add: e)
  show "API_Match (enrich_tx m tx)" by (simp add: e)
next
  assume "numeric_id tx = None \<or> (\<exists>n. numeric_id tx = Some n \<and> m (Some n) = None)"
  then have e: "enrich_tx m tx = with_api tx None None None False"
    by (auto simp: enrich_tx_def)
  show "API_Category (enrich_tx m tx) = None" by (simp add: e)
  show "API_Brand (enrich_tx m tx) = None" by (simp add: e)
  show "API_Rating (enrich_tx m tx) = None" by (simp add: e)
  show "\<not> API_Match (enrich_tx m tx)" by (simp add: e)
next
  show "transaction.truncate (enrich_tx m tx) = tx" by simp
qed

theorem enrich_tx_contract_witness:
  "numeric_id tx_laptop = Some 101
   \<and> spec_catalog_key tx_laptop = Some 101
   \<and> create_product_mapping catalog_example (Some 101)
       = Some \<lparr>title = Some ''Laptop Pro'', category = Some ''electronics'',
               brand = Some ''Acme'', rating = Some (9 / 2)\<rparr>
   \<and> API_Category (enrich_tx (create_product_mapping catalog_example) tx_laptop)
       = Some ''electronics''
   \<and> API_Match (enrich_tx (create_product_mapping catalog_example) tx_laptop)
   \<and> numeric_id (tx_laptop\<lparr>ProductID := Some ''P999''\<rparr>) = Some 999
   \<and> create_product_mapping catalog_example (Some 999) = None
   \<and> API_Category (enrich_tx (create_product_mapping catalog_example)
                      (tx_laptop\<lparr>ProductID := Some ''P999''\<rparr>)) = None
   \<and> \<not> API_Match (enrich_tx (create_product_mapping catalog_example)
                    (tx_laptop\<lparr>ProductID := Some ''P999''\<rparr>))"
proof -
  let ?m = "create_product_mapping catalog_example"
  let ?e = "\<lparr>title = Some ''Laptop Pro'', category = Some ''electronics'',
             brand = Some ''Acme'', rating = Some (9 / 2)\<rparr>"
  have hit: "numeric_id tx_laptop = Some 101 \<and> (101::int) \<noteq> 0 \<and> ?m (Some 101) = Some ?e"
    by (simp add: numeric_id_examples mapping_example)
  have miss: "numeric_id (tx_laptop\<lparr>ProductID := Some ''P999''\<rparr>) = None
                \<or> (\<exists>n. numeric_id (tx_laptop\<lparr>ProductID := Some ''P999''\<rparr>) = Some n
                        \<and> ?m (Some n) = None)"
    by (simp add: numeric_id_examples mapping_example)
  from enrich_tx_contract [of tx_laptop ?m] hit
  have "API_Category (enrich_tx ?m tx_laptop) = category ?e \<and> API_Match (enrich_tx ?m tx_laptop)"
    by blast
  moreover from enrich_tx_contract [of "tx_laptop\<lparr>ProductID := Some ''P999''\<rparr>" ?m] miss
  have "API_Category (enrich_tx ?m (tx_laptop\<lparr>ProductID := Some ''P999''\<rparr>)) = None
        \<and> \<not> API_Match (enrich_tx ?m (tx_laptop\<lparr>ProductID := Some ''P999''\<rparr>))"
    by blast
  moreover have "ProductID tx_laptop = Some ''P101'' \<and> startswith ''P101'' ''P''
                 \<and> CHR ''P'' \<notin> set (drop 1 ''P101'')"
    by (simp add: tx_laptop_def startswith_def)
  with enrich_tx_contract [of tx_laptop ?m]
  have "numeric_id tx_laptop = spec_catalog_key tx_laptop"
    by blast
  then have "spec_catalog_key tx_laptop = Some 101"
    by (simp add: numeric_id_examples)
  ultimately show ?thesis
    by (simp add: numeric_id_examples mapping_example)
qed

theorem enrich_sales_data_cardinality_witness:
  "length (enrich_sales_data [tx_laptop, tx_laptop\<lparr>ProductID := Some ''P999''\<rparr>]
             (create_product_mapping catalog_example)) = 2
   \<and> \<not> API_Match (enrich_tx (create_product_mapping []) tx_laptop)"
  using enrich_sales_data_cardinality
          [of "[tx_laptop, tx_laptop\<lparr>ProductID := Some ''P999''\<rparr>]"
              "create_product_mapping catalog_example"]
    enrich_sales_data_cardinality [of "[tx_laptop]" Map.empty]
  by simp

section \<open>Properties of the record parser\<close>

lemma split_not_Nil: "split sep s \<noteq> []"
  by (induction s) (auto split: list.splits)

lemma length_split: "length (split sep s) = Suc (length (filter (\<lambda>c. c = sep) s))"
proof (induction s)
  case Nil
  then show ?case by simp
next
  case (Cons c cs)
  obtain f fs where "split sep cs = f # fs"
    using split_not_Nil[of sep cs] by (cases "split sep cs") auto
  with Cons show ?case by simp
qed

lemma strip_Nil_all_space:
  assumes "strip s = []"
  shows "\<forall>c \<in> set s. isspace c"
proof -
  let ?t = "dropWhile isspace s"
  from assms have "\<forall>c \<in> set ?t. isspace c"
    by (simp add: strip_def dropWhile_eq_Nil_conv)
  moreover have "?t \<noteq> [] \<Longrightarrow> \<not> isspace (hd ?t)"
    by (rule hd_dropWhile)
  ultimately have "?t = []"
    by (cases ?t) auto
  then show ?thesis
    by (simp add: dropWhile_eq_Nil_conv)
qed

lemma bar_not_space: "\<not> isspace (CHR ''|'')"
  by (simp add: isspace_def)

lemma blank_line_one_field:
  assumes "strip l = []"
  shows "length (split (CHR ''|'') l) = 1"
proof -
  have "\<forall>c \<in> set l. c \<noteq> CHR ''|''"
    using strip_Nil_all_space[OF assms] bar_not_space by auto
  then have "filter (\<lambda>c. c = CHR ''|'') l = []"
    by (simp add: filter_empty_conv)
  then show ?thesis by (simp add: length_split)
qed

lemma parse_line_Some_iff:
  "parse_line pf l \<noteq> None \<longleftrightarrow>
     length (split (CHR ''|'') l) = 8
     \<and> py_int (remove_char (CHR '','') (split (CHR ''|'') l ! 4)) \<noteq> None
     \<and> pf (remove_char (CHR '','') (split (CHR ''|'') l ! 5)) \<noteq> None"
  by (auto simp: parse_line_def Let_def split: option.splits)

lemma parse_transactions_map_filter:
  "parse_transactions pf T = map the (filter (\<lambda>r. r \<noteq> None) (map (parse_line pf) T))"
  by (induction T) (auto split: option.splits)

lemma split_header:
  "split (CHR ''|'') ''TransactionID|Date|ProductID|ProductName|Quantity|UnitPrice|CustomerID|Region''
     = [''TransactionID'', ''Date'', ''ProductID'', ''ProductName'', ''Quantity'', ''UnitPrice'',
        ''CustomerID'', ''Region'']"
  by simp

lemma parse_header:
  "parse_line pf ''TransactionID|Date|ProductID|ProductName|Quantity|UnitPrice|CustomerID|Region'' = None"
  by (simp add: parse_line_def split_header remove_char_def py_int_def int_space_def is_digit_def
        del: split.simps)

text \<open>
  Claim C6, amended. \<open>parse_transactions\<close> emits a record for a line exactly
  when the line splits into 8 fields and, after the commas are removed, its quantity
  field is read by \<open>int\<close> and its unit price field by \<open>float\<close>. So a blank
  line yields no record, and neither does the header line, whose quantity field is
  not a number. The records come in the order of their lines. Skipping every line
  that begins with \<open>TransactionID\<close> is what \<open>split_sales_data\<close> does.
\<close>

theorem parse_transactions_drops:
  "(strip l = [] \<longrightarrow> parse_line pf l = None)
   \<and> (parse_line pf l \<noteq> None \<longleftrightarrow>
        length (split (CHR ''|'') l) = 8
        \<and> py_int (remove_char (CHR '','') (split (CHR ''|'') l ! 4)) \<noteq> None
        \<and> pf (remove_char (CHR '','') (split (CHR ''|'') l ! 5)) \<noteq> None)
   \<and> parse_transactions pf T = map the (filter (\<lambda>r. r \<noteq> None) (map (parse_line pf) T))
   \<and> parse_line pf ''TransactionID|Date|ProductID|ProductName|Quantity|UnitPrice|CustomerID|Region''
        = None
   \<and> (strip l = [] \<or> startswith (strip l) ''TransactionID''
        \<longrightarrow> split_sales_data (l # ls) = split_sales_data ls)"
proof (intro conjI impI)
  assume "strip l = []"
  then have "length (split (CHR ''|'') l) \<noteq> 8"
    by (simp add: blank_line_one_field)
  then show "parse_line pf l = None"
    using parse_line_Some_iff[of pf l] by blast
next
  show "parse_line pf l \<noteq> None \<longleftrightarrow>
        length (split (CHR ''|'') l) = 8
        \<and> py_int (remove_char (CHR '','') (split (CHR ''|'') l ! 4)) \<noteq> None
        \<and> pf (remove_char (CHR '','') (split (CHR ''|'') l ! 5)) \<noteq> None"
    by (rule parse_line_Some_iff)
next
  show "parse_transactions pf T = map the (filter (\<lambda>r. r \<noteq> None) (map (parse_line pf) T))"
    by (rule parse_transactions_map_filter)
next
  show "parse_line pf ''TransactionID|Date|ProductID|ProductName|Quantity|UnitPrice|CustomerID|Region''
        = None"
    by (rule parse_header)
next
  assume "strip l = [] \<or> startswith (strip l) ''TransactionID''"
  then show "split_sales_data (l # ls) = split_sales_data ls"
    by (auto simp: Let_def)
qed

lemma parse_example_header_prefix:
  "parse_transactions float_of_decimal
       [''TransactionID|2024-12-01|P101|Laptop|2|45000|C001|North'']
     = [tx_laptop\<lparr>TransactionID := Some ''TransactionID''\<rparr>]"
  by (simp add: parse_line_def remove_char_def py_int_def int_space_def is_digit_def
        digits_val_def float_of_decimal_def tx_laptop_def)

text \<open>
  Claim C6, as stated, fails: a line that begins with \<open>TransactionID\<close> and has
  eight fields with numeric quantity and unit price is parsed to a record.
\<close>

theorem header_prefixed_line_counterexample:
  "startswith ''TransactionID|2024-12-01|P101|Laptop|2|45000|C001|North'' ''TransactionID''
   \<and> parse_transactions float_of_decimal
       [''TransactionID|2024-12-01|P101|Laptop|2|45000|C001|North'']
     = [tx_laptop\<lparr>TransactionID := Some ''TransactionID''\<rparr>]"
  using parse_example_header_prefix by (simp add: startswith_def)

theorem parse_transactions_drops_witness:
  "strip '' '' = []
   \<and> split_sales_data ['' ''] = []
   \<and> parse_transactions float_of_decimal
        ['' '', ''T001|2024-12-01|P101|Laptop|2|45000|C001|North'', ''T002|only|three'',
         ''T003|2024-12-01|P101|Laptop|two|45000|C001|North'',
         ''TransactionID|Date|ProductID|ProductName|Quantity|UnitPrice|CustomerID|Region'']
       = [tx_laptop]"
proof -
  have b: "strip '' '' = []" by (simp add: strip_def isspace_def)
  have n1: "parse_line float_of_decimal '' '' = None"
    using parse_transactions_drops[of "'' ''" float_of_decimal "[]" "[]"] b by blast
  have n2: "parse_line float_of_decimal
              ''TransactionID|Date|ProductID|ProductName|Quantity|UnitPrice|CustomerID|Region'' = None"
    using parse_transactions_drops[of "'' ''" float_of_decimal "[]" "[]"] by blast
  have s1: "parse_line float_of_decimal ''T001|2024-12-01|P101|Laptop|2|45000|C001|North''
              = Some tx_laptop"
    by (simp add: parse_line_def remove_char_def py_int_def int_space_def is_digit_def
          digits_val_def float_of_decimal_def tx_laptop_def)
  have n3: "parse_line float_of_decimal ''T002|only|three'' = None"
    by (simp add: parse_line_def)
  have n4: "parse_line float_of_decimal ''T003|2024-12-01|P101|Laptop|two|45000|C001|North'' = None"
    by (simp add: parse_line_def remove_char_def py_int_def int_space_def is_digit_def)
  have sp: "split_sales_data ['' ''] = []"
    using parse_transactions_drops[of "'' ''" float_of_decimal "[]" "[]"] b by simp
  show ?thesis
    using b n1 n2 n3 n4 s1 sp by (simp del: split.simps split_sales_data.simps)
qed

section \<open>The aggregation engine on the empty collection\<close>

text \<open>
  Claim C9. On the empty collection each of the seven aggregation functions returns:
  the total revenue is the float 0, the region, customer and daily results are empty,
  the two product lists are empty, and the peak day is \<open>(None, 0.0, 0)\<close>.
\<close>

theorem aggregations_on_empty:
  "calculate_total_revenue rnd [] = Inr (Fin 0)
   \<and> region_wise_sales rnd [] = Inr []
   \<and> customer_analysis rnd [] = Inr []
   \<and> daily_sales_trend rnd [] = Inr []
   \<and> top_selling_products rnd [] n = Inr []
   \<and> low_performing_products rnd [] threshold = Inr []
   \<and> find_peak_sales_day rnd [] = Inr (None, Fin 0, 0)"
  by (simp add: calculate_total_revenue_def region_wise_sales_def customer_analysis_def
        daily_sales_trend_def top_selling_products_def low_performing_products_def
        find_peak_sales_day_def sorted_desc_def slice_to_def)

section \<open>Properties of the floats\<close>

lemma flt_not_nan: "flt a b \<Longrightarrow> a \<noteq> NaN \<and> b \<noteq> NaN"
  by (cases a; cases b) auto

lemma fle_not_nan: "fle a b \<Longrightarrow> a \<noteq> NaN \<and> b \<noteq> NaN"
  by (cases a; cases b) auto





lemma frank_le_fle: "a \<noteq> NaN \<Longrightarrow> b \<noteq> NaN \<Longrightarrow> frank a \<le> frank b \<Longrightarrow> fle a b"
  by (cases a; cases b) (auto simp: less_eq_prod_def)



lemma pos_float_not_zero: "pos_float rnd a \<Longrightarrow> a \<noteq> Fin 0"
  by (auto simp: pos_float_def)

lemma rounding_mono: "rounding_ok rnd \<Longrightarrow> x \<le> y \<Longrightarrow> fle (rnd x) (rnd y)"
  by (simp add: rounding_ok_def)

lemma rounding_one: "rounding_ok rnd \<Longrightarrow> rnd 1 = Fin 1"
  by (simp add: rounding_ok_def)

lemma rounding_idem: "rounding_ok rnd \<Longrightarrow> rnd x = Fin y \<Longrightarrow> rnd y = Fin y"
  by (simp add: rounding_ok_def)

lemma rnd_above_float:
  assumes "rounding_ok rnd" and "rnd y = Fin y" and "0 < y" and "y \<le> x"
  shows "pos_float rnd (rnd x)"
proof -
  have "fle (rnd y) (rnd x)" using assms(1,4) by (rule rounding_mono)
  then have le: "fle (Fin y) (rnd x)" using assms(2) by simp
  show ?thesis
  proof (cases "rnd x")
    case (Fin z)
    with le have "y \<le> z" by simp
    moreover have "rnd z = Fin z" using assms(1) Fin by (rule rounding_idem)
    ultimately show ?thesis using Fin assms(3) by (simp add: pos_float_def)
  next
    case PInf
    then show ?thesis by (simp add: pos_float_def)
  next
    case NInf
    with le show ?thesis by simp
  next
    case NaN
    with le show ?thesis by simp
  qed
qed

lemma fadd_pos:
  assumes "rounding_ok rnd" and "acc = Fin 0 \<or> pos_float rnd acc" and "pos_float rnd a"
  shows "pos_float rnd (fadd rnd acc a)"
proof (cases a)
  case (Fin x)
  with assms(3) have x: "0 < x" "rnd x = Fin x" by (auto simp: pos_float_def)
  show ?thesis
  proof (cases acc)
    case (Fin s)
    with assms(2) have "0 \<le> s" by (auto simp: pos_float_def)
    then have "x \<le> s + x" by simp
    from rnd_above_float[OF assms(1) x(2) x(1) this] show ?thesis
      using Fin \<open>a = Fin x\<close> by simp
  next
    case PInf
    then show ?thesis using \<open>a = Fin x\<close> by (simp add: pos_float_def)
  next
    case NInf
    with assms(2) show ?thesis by (simp add: pos_float_def)
  next
    case NaN
    with assms(2) show ?thesis by (simp add: pos_float_def)
  qed
next
  case PInf
  with assms(2) show ?thesis by (cases acc) (auto simp: pos_float_def)
next
  case NInf
  with assms(3) show ?thesis by (simp add: pos_float_def)
next
  case NaN
  with assms(3) show ?thesis by (simp add: pos_float_def)
qed

lemma foldl_fadd_pos:
  assumes "rounding_ok rnd" and "\<forall>a \<in> set as. pos_float rnd a"
    and "acc = Fin 0 \<or> pos_float rnd acc" and "as \<noteq> [] \<or> pos_float rnd acc"
  shows "pos_float rnd (foldl (fadd rnd) acc as)"
  using assms(2,3,4)
proof (induction as arbitrary: acc)
  case Nil
  then show ?case by simp
next
  case (Cons a as)
  have "pos_float rnd (fadd rnd acc a)"
    using fadd_pos[OF assms(1) Cons.prems(2)] Cons.prems(1) by simp
  with Cons show ?case by simp
qed

lemma float_of_int_ge_one:
  assumes "rounding_ok rnd" and "0 < q" and "float_of_int rnd q = Inr fq"
  shows "\<exists>f. fq = Fin f \<and> 1 \<le> f"
proof -
  from assms(3) obtain f where f: "rnd (of_int q) = Fin f" "fq = Fin f"
    by (auto simp: float_of_int_def split: pyfloat.splits)
  have "(1::rat) \<le> of_int q" using assms(2) by simp
  with assms(1) have "fle (rnd 1) (rnd (of_int q))" by (rule rounding_mono)
  then have "fle (Fin 1) (Fin f)"
    by (simp only: rounding_one[OF assms(1)] f(1))
  then show ?thesis using f by simp
qed

lemma fmul_pos:
  assumes "rounding_ok rnd" and "1 \<le> f" and "pos_float rnd p"
  shows "pos_float rnd (fmul rnd (Fin f) p)"
proof (cases p)
  case (Fin x)
  with assms(3) have x: "0 < x" "rnd x = Fin x" by (auto simp: pos_float_def)
  have "x \<le> f * x" using assms(2) x(1) by simp
  from rnd_above_float[OF assms(1) x(2) x(1) this] show ?thesis
    using Fin by simp
next
  case PInf
  then show ?thesis using assms(2) by (simp add: times_inf_def pos_float_def)
next
  case NInf
  with assms(3) show ?thesis by (simp add: pos_float_def)
next
  case NaN
  with assms(3) show ?thesis by (simp add: pos_float_def)
qed

section \<open>Properties of valid records\<close>

lemma valid_record_amount:
  assumes "rounding_ok rnd" and "valid_record rnd tx"
  shows "pos_float rnd (amount_value rnd tx) \<and> amount rnd tx = Inr (amount_value rnd tx)"
proof -
  from assms(2) obtain p a where h: "validate_tx tx" "UnitPrice tx = Some p" "pos_float rnd p"
    "amount rnd tx = Inr a"
    by (auto simp: valid_record_def)
  from validate_tx_fields[OF h(1)] obtain q where q: "Quantity tx = Some q" "0 < q" by auto
  from h(4) q(1) h(2) obtain fq where fq: "float_of_int rnd q = Inr fq" "a = fmul rnd fq p"
    by (auto simp: amount_def getitem_def split: sum.splits)
  from float_of_int_ge_one[OF assms(1) q(2) fq(1)] obtain f where f: "fq = Fin f" "1 \<le> f"
    by blast
  have "pos_float rnd a" using fmul_pos[OF assms(1) f(2) h(3)] fq(2) f(1) by simp
  then show ?thesis using h(4) by (simp add: amount_value_def)
qed

lemma amount_value_eq: "amount rnd tx = Inr a \<Longrightarrow> amount_value rnd tx = a"
  by (simp add: amount_value_def)

lemma revenue_loop_defined:
  "revenue_loop rnd T acc = Inr g \<Longrightarrow> \<forall>tx \<in> set T. \<exists>a. amount rnd tx = Inr a"
  by (induction T arbitrary: acc) (auto split: sum.splits)

lemma revenue_loop_sum:
  "\<forall>tx \<in> set T. \<exists>a. amount rnd tx = Inr a \<Longrightarrow>
     revenue_loop rnd T acc = Inr (foldl (fadd rnd) acc (map (amount_value rnd) T))"
  by (induction T arbitrary: acc) (auto simp: amount_value_eq)

lemma calculate_total_revenue_sum:
  "\<forall>tx \<in> set T. \<exists>a. amount rnd tx = Inr a \<Longrightarrow>
     calculate_total_revenue rnd T = Inr (foldl (fadd rnd) (Fin 0) (map (amount_value rnd) T))"
  by (simp add: calculate_total_revenue_def revenue_loop_sum)

lemma total_pos:
  assumes "rounding_ok rnd" and "\<forall>tx \<in> set T. valid_record rnd tx" and "T \<noteq> []"
  shows "pos_float rnd (foldl (fadd rnd) (Fin 0) (map (amount_value rnd) T))"
proof (rule foldl_fadd_pos[OF assms(1)])
  show "\<forall>a \<in> set (map (amount_value rnd) T). pos_float rnd a"
    using assms(1,2) valid_record_amount by auto
  show "Fin 0 = Fin 0 \<or> pos_float rnd (Fin 0)" by simp
  show "map (amount_value rnd) T \<noteq> [] \<or> pos_float rnd (Fin 0)" using assms(3) by simp
qed

section \<open>Properties of the accumulators\<close>

lemma map_of_dict_update:
  "map_of (dict_update k i f d) = (map_of d)(k \<mapsto> f (case map_of d k of None \<Rightarrow> i | Some v \<Rightarrow> v))"
  by (induction d) (auto simp: fun_eq_iff)

lemma keys_dict_update:
  "map fst (dict_update k i f d) = (if k \<in> fst ` set d then map fst d else map fst d @ [k])"
  by (induction d) force+

lemma tally_Nil [simp]: "tally rnd key [] d = d"
  by (simp add: tally_def)

lemma tally_Cons:
  "tally rnd key (tx # T) d =
     tally rnd key T
       (dict_update (key tx) (Fin 0, 0) (\<lambda>(s, c). (fadd rnd s (amount_value rnd tx), c + 1)) d)"
  by (simp add: tally_def)


lemma tally_keys:
  "\<exists>extra. map fst (tally rnd key T d) = map fst d @ extra \<and> distinct extra
           \<and> set extra = key ` set T - fst ` set d"
proof (induction T arbitrary: d)
  case Nil
  then show ?case by simp
next
  case (Cons tx T)
  let ?d1 = "dict_update (key tx) (Fin 0, 0)
               (\<lambda>(s, c). (fadd rnd s (amount_value rnd tx), c + 1)) d"
  from Cons[of ?d1] obtain extra1 where e1:
    "map fst (tally rnd key T ?d1) = map fst ?d1 @ extra1" "distinct extra1"
    "set extra1 = key ` set T - fst ` set ?d1"
    by blast
  show ?case
  proof (cases "key tx \<in> fst ` set d")
    case True
    then have k: "map fst ?d1 = map fst d" by (simp add: keys_dict_update)
    then have "fst ` set ?d1 = fst ` set d" by (metis set_map)
    with e1 k True show ?thesis
      by (intro exI[of _ extra1]) (auto simp: tally_Cons)
  next
    case False
    then have k: "map fst ?d1 = map fst d @ [key tx]" by (simp add: keys_dict_update)
    then have "set (map fst ?d1) = set (map fst d @ [key tx])" by simp
    then have s: "fst ` set ?d1 = insert (key tx) (fst ` set d)" by simp
    with e1 k False show ?thesis
      by (intro exI[of _ "key tx # extra1"]) (auto simp: tally_Cons)
  qed
qed

lemma tally_keys_Nil:
  "distinct (map fst (tally rnd key T [])) \<and> set (map fst (tally rnd key T [])) = key ` set T"
  using tally_keys[of rnd key T "[]"] by auto

lemma filter_key_Nil: "k \<notin> key ` set T \<Longrightarrow> filter (\<lambda>tx. key tx = k) T = []"
  by (auto simp: filter_empty_conv)

lemma tally_map_of:
  "map_of (tally rnd key T d) k =
     (if k \<in> key ` set T
      then Some (foldl (fadd rnd) (fst (case map_of d k of None \<Rightarrow> (Fin 0, 0) | Some v \<Rightarrow> v))
                   (map (amount_value rnd) (filter (\<lambda>tx. key tx = k) T)),
                 snd (case map_of d k of None \<Rightarrow> (Fin 0, 0) | Some v \<Rightarrow> v)
                   + int (length (filter (\<lambda>tx. key tx = k) T)))
      else map_of d k)"
proof (induction T arbitrary: d)
  case Nil
  then show ?case by simp
next
  case (Cons tx T)
  show ?case
  proof (cases "key tx = k")
    case True
    then show ?thesis
      by (auto simp: tally_Cons Cons map_of_dict_update filter_key_Nil
               split: prod.splits option.splits)
  next
    case False
    then show ?thesis
      by (simp add: tally_Cons Cons map_of_dict_update)
  qed
qed

lemma tally_value:
  assumes "(k, s, c) \<in> set (tally rnd key T [])"
  shows "k \<in> key ` set T
         \<and> s = foldl (fadd rnd) (Fin 0) (map (amount_value rnd) (filter (\<lambda>tx. key tx = k) T))
         \<and> c = int (length (filter (\<lambda>tx. key tx = k) T))"
proof -
  have dk: "distinct (map fst (tally rnd key T []))"
    and keys: "set (map fst (tally rnd key T [])) = key ` set T"
    using tally_keys_Nil[of rnd key T] by auto
  from assms dk have m: "map_of (tally rnd key T []) k = Some (s, c)" by simp
  from assms keys have kin: "k \<in> key ` set T" by force
  with m show ?thesis by (simp add: tally_map_of)
qed

section \<open>Properties of \<open>region_wise_sales\<close>\<close>

lemma region_pass_tally:
  "\<forall>tx \<in> set T. Region tx \<noteq> None \<and> (\<exists>a. amount rnd tx = Inr a) \<Longrightarrow>
     region_pass rnd T (d, tot) =
       Inr (tally rnd region_of T d, foldl (fadd rnd) tot (map (amount_value rnd) T))"
proof (induction T arbitrary: d tot)
  case Nil
  then show ?case by simp
next
  case (Cons tx T)
  then obtain r a where ra: "Region tx = Some r" "amount rnd tx = Inr a" by auto
  then have "region_of tx = r" "amount_value rnd tx = a"
    by (simp_all add: region_of_def amount_value_def)
  with Cons ra show ?case
    by (simp add: tally_Cons getitem_def)
qed

lemma fdiv_defined: "g \<noteq> Fin 0 \<Longrightarrow> \<exists>d. fdiv rnd s g = Inr d"
  by (cases g; cases s) auto

lemma percentage_pass_nonzero:
  assumes "g \<noteq> Fin 0"
  shows "\<exists>out. percentage_pass rnd g d = Inr out \<and> map fst out = map fst d
           \<and> (\<forall>(r, st) \<in> set out. (r, total_sales st, transaction_count st) \<in> set d
                 \<and> (\<exists>q. fdiv rnd (total_sales st) g = Inr q
                          \<and> percentage st = round2 rnd (fmul rnd q (Fin 100))))"
proof (induction d)
  case Nil
  then show ?case by simp
next
  case (Cons x d)
  obtain r s c where x: "x = (r, s, c)" by (cases x) auto
  obtain q where q: "fdiv rnd s g = Inr q" using fdiv_defined[OF assms] by blast
  from Cons obtain out where o: "percentage_pass rnd g d = Inr out" "map fst out = map fst d"
    "\<forall>(r, st) \<in> set out. (r, total_sales st, transaction_count st) \<in> set d
         \<and> (\<exists>q. fdiv rnd (total_sales st) g = Inr q
                  \<and> percentage st = round2 rnd (fmul rnd q (Fin 100)))"
    by blast
  let ?st = "\<lparr>total_sales = s, transaction_count = c,
              percentage = round2 rnd (fmul rnd q (Fin 100))\<rparr>"
  have "percentage_pass rnd g (x # d) = Inr ((r, ?st) # out)"
    by (simp add: x q o(1))
  moreover have "map fst ((r, ?st) # out) = map fst (x # d)" by (simp add: x o(2))
  moreover have "\<forall>(r', st) \<in> set ((r, ?st) # out).
       (r', total_sales st, transaction_count st) \<in> set (x # d)
         \<and> (\<exists>q. fdiv rnd (total_sales st) g = Inr q
                  \<and> percentage st = round2 rnd (fmul rnd q (Fin 100)))"
    using o(3) q by (auto simp: x)
  ultimately show ?case by blast
qed

lemma region_filter_eq:
  "\<forall>tx \<in> set T. Region tx \<noteq> None \<Longrightarrow>
     filter (\<lambda>tx. region_of tx = r) T = filter (\<lambda>tx. Region tx = Some r) T"
  by (rule filter_cong) (auto simp: region_of_def)

lemma sorted_desc_set [simp]: "set (sorted_desc key xs) = set xs"
  by (simp add: sorted_desc_def)

lemma sorted_desc_distinct:
  "distinct (map f (sorted_desc key xs)) \<longleftrightarrow> distinct (map f xs)"
  by (simp add: sorted_desc_def distinct_map)

lemma sorted_desc_sorted:
  "sorted_wrt (\<lambda>a b. key b \<le> key a) (sorted_desc key xs)"
proof -
  have "sorted (map key (sort_key key (rev xs)))" by (rule sorted_sort_key)
  then have "sorted_wrt (\<lambda>a b. key a \<le> key b) (sort_key key (rev xs))"
    by (simp add: sorted_map)
  then show ?thesis
    by (simp add: sorted_desc_def sorted_wrt_rev)
qed

text \<open>
  Claim C4, amended. Let the grand total revenue of a collection be \<open>g\<close>, with the
  key Region present in every record. The empty collection gives the empty result.
  When \<open>g\<close> is not zero the function returns one entry per region, whose
  \<open>total_sales\<close> and \<open>transaction_count\<close> are the revenue and the number of the
  transactions of the region and whose percentage is \<open>total_sales / g * 100\<close>,
  computed in floats and rounded to 2 places; the entries are ordered by
  \<open>total_sales\<close> descending when no \<open>total_sales\<close> is NaN. A collection of
  valid records has the grand total zero only when it is empty.
\<close>

theorem region_wise_sales_percentages:
  assumes "calculate_total_revenue rnd T = Inr g" and "\<forall>tx \<in> set T. Region tx \<noteq> None"
  shows "(T = [] \<longrightarrow> region_wise_sales rnd T = Inr [])
     \<and> (g \<noteq> Fin 0 \<longrightarrow>
          (\<exists>res. region_wise_sales rnd T = Inr res
             \<and> distinct (map fst res)
             \<and> fst ` set res = {r. Some r \<in> Region ` set T}
             \<and> (\<forall>(r, st) \<in> set res.
                   calculate_total_revenue rnd (filter (\<lambda>tx. Region tx = Some r) T)
                     = Inr (total_sales st)
                   \<and> transaction_count st = int (length (filter (\<lambda>tx. Region tx = Some r) T))
                   \<and> (\<exists>q. fdiv rnd (total_sales st) g = Inr q
                            \<and> percentage st = round2 rnd (fmul rnd q (Fin 100))))
             \<and> ((\<forall>(r, st) \<in> set res. total_sales st \<noteq> NaN) \<longrightarrow>
                   sorted_wrt (\<lambda>a b. fle (total_sales (snd b)) (total_sales (snd a))) res)))
     \<and> (rounding_ok rnd \<and> (\<forall>tx \<in> set T. valid_record rnd tx) \<and> g = Fin 0 \<longrightarrow> T = [])"
proof (intro conjI impI)
  assume "T = []"
  then show "region_wise_sales rnd T = Inr []"
    by (simp add: region_wise_sales_def sorted_desc_def)
next
  assume v: "rounding_ok rnd \<and> (\<forall>tx \<in> set T. valid_record rnd tx) \<and> g = Fin 0"
  have am: "\<forall>tx \<in> set T. \<exists>a. amount rnd tx = Inr a"
    using assms(1) revenue_loop_defined by (simp add: calculate_total_revenue_def)
  then have gs: "g = foldl (fadd rnd) (Fin 0) (map (amount_value rnd) T)"
    using assms(1) by (simp add: calculate_total_revenue_sum)
  show "T = []"
  proof (rule ccontr)
    assume "T \<noteq> []"
    with v have "pos_float rnd g" unfolding gs by (intro total_pos) simp_all
    with v show False by (simp add: pos_float_def)
  qed
next
  assume g: "g \<noteq> Fin 0"
  have am: "\<forall>tx \<in> set T. \<exists>a. amount rnd tx = Inr a"
    using assms(1) revenue_loop_defined by (simp add: calculate_total_revenue_def)
  then have gs: "g = foldl (fadd rnd) (Fin 0) (map (amount_value rnd) T)"
    using assms(1) by (simp add: calculate_total_revenue_sum)
  let ?d = "tally rnd region_of T []"
  have pass: "region_pass rnd T ([], Fin 0) = Inr (?d, g)"
    using region_pass_tally[of T rnd "[]" "Fin 0"] assms(2) am gs by simp
  from percentage_pass_nonzero[OF g, of rnd ?d]
  obtain out where o: "percentage_pass rnd g ?d = Inr out" "map fst out = map fst ?d"
    "\<forall>(r, st) \<in> set out. (r, total_sales st, transaction_count st) \<in> set ?d
         \<and> (\<exists>q. fdiv rnd (total_sales st) g = Inr q
                  \<and> percentage st = round2 rnd (fmul rnd q (Fin 100)))"
    by blast
  let ?res = "sorted_desc (\<lambda>item. frank (total_sales (snd item))) out"
  have res: "region_wise_sales rnd T = Inr ?res"
    by (simp add: region_wise_sales_def pass o(1))
  have dk: "distinct (map fst ?d)" and keys: "set (map fst ?d) = region_of ` set T"
    using tally_keys_Nil[of rnd region_of T] by auto
  have s2: "distinct (map fst ?res)"
    using dk o(2) by (simp add: sorted_desc_distinct)
  have s3: "fst ` set ?res = {r. Some r \<in> Region ` set T}"
  proof -
    have "fst ` set ?res = set (map fst out)" by simp
    also have "\<dots> = region_of ` set T" using o(2) keys by simp
    also have "\<dots> = {r. Some r \<in> Region ` set T}"
      using assms(2) by (force simp: region_of_def image_iff split: option.splits)
    finally show ?thesis .
  qed
  have s4: "\<forall>(r, st) \<in> set ?res.
              calculate_total_revenue rnd (filter (\<lambda>tx. Region tx = Some r) T)
                = Inr (total_sales st)
              \<and> transaction_count st = int (length (filter (\<lambda>tx. Region tx = Some r) T))
              \<and> (\<exists>q. fdiv rnd (total_sales st) g = Inr q
                       \<and> percentage st = round2 rnd (fmul rnd q (Fin 100)))"
  proof (clarify)
    fix r st assume "(r, st) \<in> set ?res"
    then have i: "(r, st) \<in> set out" by simp
    with o(3) have sc: "(r, total_sales st, transaction_count st) \<in> set ?d"
      and pc: "\<exists>q. fdiv rnd (total_sales st) g = Inr q
                    \<and> percentage st = round2 rnd (fmul rnd q (Fin 100))"
      by auto
    let ?ts = "filter (\<lambda>tx. Region tx = Some r) T"
    from tally_value[OF sc]
    have "total_sales st = foldl (fadd rnd) (Fin 0) (map (amount_value rnd) ?ts)"
      "transaction_count st = int (length ?ts)"
      by (simp_all add: region_filter_eq[OF assms(2)])
    moreover have "calculate_total_revenue rnd ?ts
                     = Inr (foldl (fadd rnd) (Fin 0) (map (amount_value rnd) ?ts))"
      by (rule calculate_total_revenue_sum) (use am in auto)
    ultimately show "calculate_total_revenue rnd ?ts = Inr (total_sales st)
              \<and> transaction_count st = int (length ?ts)
              \<and> (\<exists>q. fdiv rnd (total_sales st) g = Inr q
                       \<and> percentage st = round2 rnd (fmul rnd q (Fin 100)))"
      using pc by simp
  qed
  have s5: "sorted_wrt (\<lambda>a b. fle (total_sales (snd b)) (total_sales (snd a))) ?res"
    if nn: "\<forall>(r, st) \<in> set ?res. total_sales st \<noteq> NaN"
  proof (rule sorted_wrt_mono_rel[OF _ sorted_desc_sorted])
    fix a b
    assume "a \<in> set ?res" "b \<in> set ?res"
      and "frank (total_sales (snd b)) \<le> frank (total_sales (snd a))"
    moreover from nn \<open>a \<in> set ?res\<close> have "total_sales (snd a) \<noteq> NaN" by (cases a) auto
    moreover from nn \<open>b \<in> set ?res\<close> have "total_sales (snd b) \<noteq> NaN" by (cases b) auto
    ultimately show "fle (total_sales (snd b)) (total_sales (snd a))"
      by (simp add: frank_le_fle)
  qed
  show "\<exists>res. region_wise_sales rnd T = Inr res
             \<and> distinct (map fst res)
             \<and> fst ` set res = {r. Some r \<in> Region ` set T}
             \<and> (\<forall>(r, st) \<in> set res.
                   calculate_total_revenue rnd (filter (\<lambda>tx. Region tx = Some r) T)
                     = Inr (total_sales st)
                   \<and> transaction_count st = int (length (filter (\<lambda>tx. Region tx = Some r) T))
                   \<and> (\<exists>q. fdiv rnd (total_sales st) g = Inr q
                            \<and> percentage st = round2 rnd (fmul rnd q (Fin 100))))
             \<and> ((\<forall>(r, st) \<in> set res. total_sales st \<noteq> NaN) \<longrightarrow>
                   sorted_wrt (\<lambda>a b. fle (total_sales (snd b)) (total_sales (snd a))) res)"
    using res s2 s3 s4 s5 by blast
qed

section \<open>Properties of \<open>find_peak_sales_day\<close>\<close>















section \<open>The aggregations on concrete collections\<close>


lemma amount_examples:
  "amount exact tx_laptop = Inr (Fin 90000)" "amount exact tx_south = Inr (Fin 30000)"
  "amount exact (tx_laptop\<lparr>Date := Some ''2024-12-03''\<rparr>) = Inr (Fin 90000)"
  "amount exact (tx_laptop\<lparr>Quantity := Some 0\<rparr>) = Inr (Fin 0)"
  by (simp_all add: amount_def getitem_def float_of_int_def exact_def tx_laptop_def tx_south_def)



lemma round2_examples: "round2 exact (Fin 75) = Fin 75" "round2 exact (Fin 25) = Fin 25"
  by (simp_all add: round2_def round_half_even_def exact_def)

lemma region_example:
  "region_wise_sales exact [tx_south, tx_laptop]
     = Inr [(''North'', \<lparr>total_sales = Fin 90000, transaction_count = 1, percentage = Fin 75\<rparr>),
            (''South'', \<lparr>total_sales = Fin 30000, transaction_count = 1, percentage = Fin 25\<rparr>)]"
  by (simp add: region_wise_sales_def amount_def getitem_def float_of_int_def exact_def
        tx_laptop_def tx_south_def round2_def round_half_even_def sorted_desc_def
        less_eq_prod_def)

lemma revenue_example: "calculate_total_revenue exact [tx_south, tx_laptop] = Inr (Fin 120000)"
  by (simp add: calculate_total_revenue_def amount_examples exact_def)

text \<open>
  Claim C4, as stated, fails: for a collection of one record with quantity 0 the grand
  total is zero and \<open>region_wise_sales\<close> raises ZeroDivisionError.
\<close>

theorem region_wise_sales_zero_total_counterexample:
  "calculate_total_revenue exact [tx_laptop\<lparr>Quantity := Some 0\<rparr>] = Inr (Fin 0)
   \<and> region_wise_sales exact [tx_laptop\<lparr>Quantity := Some 0\<rparr>] = Inl ZeroDivisionError"
  by (simp add: calculate_total_revenue_def region_wise_sales_def amount_def getitem_def
        float_of_int_def exact_def tx_laptop_def)

theorem region_wise_sales_percentages_witness:
  "calculate_total_revenue exact [tx_south, tx_laptop] = Inr (Fin 120000)
   \<and> Region tx_south \<noteq> None \<and> Region tx_laptop \<noteq> None
   \<and> region_wise_sales exact [tx_south, tx_laptop]
       = Inr [(''North'', \<lparr>total_sales = Fin 90000, transaction_count = 1, percentage = Fin 75\<rparr>),
              (''South'', \<lparr>total_sales = Fin 30000, transaction_count = 1, percentage = Fin 25\<rparr>)]
   \<and> (\<exists>res. region_wise_sales exact [tx_south, tx_laptop] = Inr res
          \<and> sorted_wrt (\<lambda>a b. fle (total_sales (snd b)) (total_sales (snd a))) res)
   \<and> calculate_total_revenue exact [] = Inr (Fin 0)
   \<and> region_wise_sales exact [] = Inr []"
proof -
  have e: "calculate_total_revenue exact [] = Inr (Fin 0)"
    by (simp add: calculate_total_revenue_def)
  have e': "region_wise_sales exact [] = Inr []"
    using region_wise_sales_percentages[OF e] by simp
  have r: "\<forall>tx \<in> set [tx_south, tx_laptop]. Region tx \<noteq> None"
    by (simp add: tx_laptop_def tx_south_def)
  have g: "Fin 120000 \<noteq> Fin 0" by simp
  from region_wise_sales_percentages[OF revenue_example r] g
  obtain res where res: "region_wise_sales exact [tx_south, tx_laptop] = Inr res"
    "(\<forall>(r, st) \<in> set res. total_sales st \<noteq> NaN) \<longrightarrow>
       sorted_wrt (\<lambda>a b. fle (total_sales (snd b)) (total_sales (snd a))) res"
    by blast
  from res(1) have "\<forall>(r, st) \<in> set res. total_sales st \<noteq> NaN"
    by (auto simp: region_example)
  with res have "\<exists>res. region_wise_sales exact [tx_south, tx_laptop] = Inr res
          \<and> sorted_wrt (\<lambda>a b. fle (total_sales (snd b)) (total_sales (snd a))) res"
    by blast
  then show ?thesis
    using revenue_example region_example r e e' by simp
qed



text \<open>
  A unit price that is NaN passes the checks of the validator, since \<open>NaN <= 0\<close> is
  false; it is not a valid record in the sense above. On such a record the peak day
  is \<open>(None, 0.0, 0)\<close>, since no comparison with NaN holds.
\<close>

lemma nan_price_example:
  "validate_tx (tx_laptop\<lparr>UnitPrice := Some NaN\<rparr>)
   \<and> \<not> valid_record exact (tx_laptop\<lparr>UnitPrice := Some NaN\<rparr>)
   \<and> find_peak_sales_day exact [tx_laptop\<lparr>UnitPrice := Some NaN\<rparr>] = Inr (None, Fin 0, 0)"
  by (simp add: validate_tx_def valid_record_def pos_float_def startswith_def tx_laptop_def
        find_peak_sales_day_def amount_def getitem_def float_of_int_def exact_def)

end
